theory Spec2Isabelle
  imports Main "HOL-Library.AList"
begin

section \<open>Errors, coroutine results and awaited collaborators\<close>

text \<open>
  The exceptions that \<^verbatim>\<open>kernelmanager.py\<close> raises or lets through.
  \<open>HTTPError\<close> is tornado's \<^verbatim>\<open>web.HTTPError(status, message)\<close>,
  \<open>TimeoutError\<close> is \<^verbatim>\<open>gen.TimeoutError\<close>; \<open>AttributeError\<close> and
  \<open>KeyError\<close> are what Python raises on a missing attribute or dictionary key;
  \<open>CollaboratorError\<close> stands for an exception coming out of the kernel launcher or
  the message client.
\<close>

datatype error =
    HTTPError nat string
  | TimeoutError string
  | AttributeError string
  | KeyError string
  | ValueError
  | CollaboratorError string

text \<open>
  A method either returns, raises, or (a coroutine) stays parked at a \<^verbatim>\<open>yield\<close>
  whose future has not resolved.
\<close>

datatype 'a result = Returned 'a | Raised error | Suspended

text \<open>
  What an awaited future of a collaborator does: it resolves, it fails with an exception,
  or it has not resolved (yet, or by the deadline of an enclosing
  \<^verbatim>\<open>gen.with_timeout\<close>).
\<close>

datatype io = Resolves | Fails error | Pending

section \<open>Messages, handlers, the message client and the process handle\<close>

record message =
  msg_type :: string
  msg_execution_state :: string

text \<open>
  A channel callback. \<open>BufferMsg i channel\<close> is the object
  \<^verbatim>\<open>partial(buffer_msg, channel)\<close> built by \<^verbatim>\<open>start_buffering\<close>; every call
  of \<^verbatim>\<open>partial\<close> makes a new object, and \<^verbatim>\<open>partial\<close> objects compare by
  identity, so the number \<open>i\<close> is that identity. \<open>RecordActivity kernel_id\<close> is the
  \<^verbatim>\<open>record_activity\<close> closure of \<^verbatim>\<open>start_watching_activity\<close>.
\<close>

datatype handler = BufferMsg nat string | RecordActivity string

text \<open>
  Modelled from the spec: the message client (\<^verbatim>\<open>IOLoopKernelClient\<close> of
  \<^verbatim>\<open>jupyter_kernel_mgmt\<close>) is not part of the sources. The spec describes it as
  an explicit subscription list per channel, \<^verbatim>\<open>addHandler(channelName, callback)\<close>
  and \<^verbatim>\<open>removeHandler(channelName, callback)\<close>, removal being a linear scan; the
  source expects \<^verbatim>\<open>ValueError\<close> from removing a callback that is not attached.
\<close>

record client_state =
  handlers :: "(string \<times> handler) list"
  closed :: bool
  shutdown_requested :: bool

definition new_client :: client_state where
  "new_client = \<lparr>handlers = [], closed = False, shutdown_requested = False\<rparr>"

definition add_handler :: "string \<Rightarrow> handler \<Rightarrow> client_state \<Rightarrow> client_state" where
  "add_handler channel h c = c\<lparr>handlers := handlers c @ [(channel, h)]\<rparr>"

definition remove_handler :: "string \<Rightarrow> handler \<Rightarrow> client_state \<Rightarrow> error + client_state" where
  "remove_handler channel h c =
     (if (channel, h) \<in> set (handlers c)
      then Inr (c\<lparr>handlers := remove1 (channel, h) (handlers c)\<rparr>)
      else Inl ValueError)"

text \<open>
  The process handle returned by \<^verbatim>\<open>kernel_finder.launch\<close> (the attribute
  \<^verbatim>\<open>manager\<close>): what the source asks of it is \<^verbatim>\<open>kill()\<close>,
  \<^verbatim>\<open>cleanup()\<close> and \<^verbatim>\<open>interrupt()\<close>.
\<close>

record process_handle =
  killed :: bool
  cleaned_up :: bool
  interrupts :: nat

definition launched :: process_handle where
  "launched = \<lparr>killed = False, cleaned_up = False, interrupts = 0\<rparr>"

section \<open>KernelInterface\<close>

text \<open>
  The attributes \<^verbatim>\<open>__init__\<close> sets, and the class attribute \<^verbatim>\<open>client\<close>
  (\<open>None\<close> until \<^verbatim>\<open>connect_client\<close>). Time stamps are microseconds on the UTC
  clock, the resolution of Python's \<^verbatim>\<open>datetime\<close>. \<open>buffer_handlers\<close> is a
  dictionary, kept as an association list in insertion order. \<open>handler_seq\<close> counts
  the \<^verbatim>\<open>partial\<close> objects made so far and supplies their identities.
\<close>

record KernelInterface =
  kernel_type :: string
  manager :: process_handle
  n_connections :: int
  execution_state :: string
  last_activity :: "int option"
  buffer_for_key :: "string option"
  buffer :: "(string \<times> message) list"
  buffer_handlers :: "(string \<times> handler) list"
  client :: "client_state option"
  handler_seq :: nat

text \<open>
  The names that an attribute read on a \<^verbatim>\<open>KernelInterface\<close> object finds: the
  instance attributes of \<^verbatim>\<open>__init__\<close>, the class attribute and the methods of
  the class body, and \<^verbatim>\<open>log\<close>, \<^verbatim>\<open>config\<close>, \<^verbatim>\<open>parent\<close> of
  \<^verbatim>\<open>LoggingConfigurable\<close>. Reading any other name raises
  \<^verbatim>\<open>AttributeError\<close>.
\<close>

definition KernelInterface_attributes :: "string list" where
  "KernelInterface_attributes =
     [''kernel_type'', ''kernel_finder'', ''connection_info'', ''manager'',
      ''n_connections'', ''execution_state'', ''last_activity'', ''restarter'',
      ''buffer_for_key'', ''buffer'', ''buffer_handlers'', ''client'',
      ''connect_client'', ''shutdown'', ''interrupt'', ''_handle_kernel_restarted'',
      ''start_buffering'', ''get_buffer'', ''stop_buffering'',
      ''log'', ''config'', ''parent'']"

definition read_attribute :: "string \<Rightarrow> error + unit" where
  "read_attribute name =
     (if name \<in> set KernelInterface_attributes then Inr () else Inl (AttributeError name))"

definition KernelInterface_init :: "int \<Rightarrow> string \<Rightarrow> KernelInterface" where
  "KernelInterface_init now kt =
     \<lparr>kernel_type = kt, manager = launched, n_connections = 0,
      execution_state = ''starting'', last_activity = Some now,
      buffer_for_key = None, buffer = [], buffer_handlers = [],
      client = None, handler_seq = 0\<rparr>"

text \<open>
  \<^verbatim>\<open>connect_client\<close>: the existing client if there is one; otherwise a new client,
  then the wait for \<^verbatim>\<open>wait_for_ready()\<close>, whose outcome is \<open>ready\<close>.
\<close>

definition connect_client :: "io \<Rightarrow> KernelInterface \<Rightarrow> client_state result \<times> KernelInterface" where
  "connect_client ready k =
     (case client k of
        Some c \<Rightarrow> (Returned c, k)
      | None \<Rightarrow>
          (let k1 = k\<lparr>client := Some new_client\<rparr> in
           case ready of
             Resolves \<Rightarrow> (Returned new_client, k1)
           | Fails e \<Rightarrow> (Raised e, k1)
           | Pending \<Rightarrow> (Suspended, k1)))"

text \<open>
  \<^verbatim>\<open>stop_buffering\<close>. The loop over \<^verbatim>\<open>buffer_handlers.items()\<close> removes each
  recorded handler from the client and passes over \<^verbatim>\<open>ValueError\<close>; with no
  client, the first iteration raises \<^verbatim>\<open>AttributeError\<close> before anything is
  cleared.
\<close>

fun remove_handlers :: "(string \<times> handler) list \<Rightarrow> client_state \<Rightarrow> client_state" where
  "remove_handlers [] c = c"
| "remove_handlers ((channel, h) # rest) c =
     remove_handlers rest
       (case remove_handler channel h c of Inl _ \<Rightarrow> c | Inr c' \<Rightarrow> c')"

definition clear_buffering :: "KernelInterface \<Rightarrow> KernelInterface" where
  "clear_buffering k = k\<lparr>buffer_handlers := [], buffer := [], buffer_for_key := None\<rparr>"

definition stop_buffering :: "KernelInterface \<Rightarrow> unit result \<times> KernelInterface" where
  "stop_buffering k =
     (if buffer_handlers k = [] then (Returned (), clear_buffering k)
      else case client k of
             None \<Rightarrow> (Raised (AttributeError ''remove_handler''), k)
           | Some c \<Rightarrow>
               (Returned (),
                clear_buffering (k\<lparr>client := Some (remove_handlers (buffer_handlers k) c)\<rparr>)))"

text \<open>
  \<^verbatim>\<open>start_buffering\<close>: the key is recorded first; then, for each of the three
  channels, a new \<^verbatim>\<open>partial\<close> is made, attached to the client and stored in
  \<^verbatim>\<open>buffer_handlers\<close>. Nothing is cleared.
\<close>

definition register_buffer_handler :: "string \<Rightarrow> KernelInterface \<Rightarrow> unit result \<times> KernelInterface" where
  "register_buffer_handler channel k =
     (let h = BufferMsg (handler_seq k) channel;
          k1 = k\<lparr>handler_seq := Suc (handler_seq k)\<rparr> in
      case client k1 of
        None \<Rightarrow> (Raised (AttributeError ''add_handler''), k1)
      | Some c \<Rightarrow>
          (Returned (),
           k1\<lparr>client := Some (add_handler channel h c),
              buffer_handlers := AList.update channel h (buffer_handlers k1)\<rparr>))"

fun register_buffer_handlers :: "string list \<Rightarrow> KernelInterface \<Rightarrow> unit result \<times> KernelInterface" where
  "register_buffer_handlers [] k = (Returned (), k)"
| "register_buffer_handlers (channel # rest) k =
     (case register_buffer_handler channel k of
        (Returned _, k1) \<Rightarrow> register_buffer_handlers rest k1
      | (Raised e, k1) \<Rightarrow> (Raised e, k1)
      | (Suspended, k1) \<Rightarrow> (Suspended, k1))"

definition buffer_channels :: "string list" where
  "buffer_channels = [''shell'', ''iopub'', ''stdin'']"

definition start_buffering :: "string \<Rightarrow> KernelInterface \<Rightarrow> unit result \<times> KernelInterface" where
  "start_buffering session_key k =
     register_buffer_handlers buffer_channels (k\<lparr>buffer_for_key := Some session_key\<rparr>)"

text \<open>The body of the closure \<^verbatim>\<open>buffer_msg(channel, msg_parts)\<close>.\<close>

definition buffer_msg :: "string \<Rightarrow> message \<Rightarrow> KernelInterface \<Rightarrow> KernelInterface" where
  "buffer_msg channel msg_parts k = k\<lparr>buffer := buffer k @ [(channel, msg_parts)]\<rparr>"

text \<open>
  \<^verbatim>\<open>get_buffer\<close>: the old list and key are kept aside, the attribute is rebound to
  a new empty list, and \<^verbatim>\<open>stop_buffering\<close> runs before the pair is returned.
\<close>

definition get_buffer ::
  "KernelInterface \<Rightarrow> ((string \<times> message) list \<times> string option) result \<times> KernelInterface" where
  "get_buffer k =
     (let b = buffer k; key = buffer_for_key k in
      case stop_buffering (k\<lparr>buffer := []\<rparr>) of
        (Returned _, k1) \<Rightarrow> (Returned (b, key), k1)
      | (Raised e, k1) \<Rightarrow> (Raised e, k1)
      | (Suspended, k1) \<Rightarrow> (Suspended, k1))"

text \<open>
  \<^verbatim>\<open>shutdown(now)\<close> is a coroutine with one \<^verbatim>\<open>yield\<close>, on
  \<^verbatim>\<open>client.shutdown_or_terminate()\<close> in the branch \<^verbatim>\<open>now = False\<close>.
  \<open>shutdown_begin\<close> is what a call runs before control comes back to the caller,
  \<open>shutdown_resume\<close> what runs once the awaited future has the outcome \<open>out\<close>, and
  \<open>shutdown_finish\<close> the last three statements. There is no
  \<^verbatim>\<open>try\<close>/\<^verbatim>\<open>finally\<close>: a failed request leaves the last three statements
  unexecuted.
\<close>

definition shutdown_finish :: "KernelInterface \<Rightarrow> unit result \<times> KernelInterface" where
  "shutdown_finish k =
     (case client k of
        None \<Rightarrow> (Raised (AttributeError ''close''), k)
      | Some c \<Rightarrow>
          stop_buffering
            (k\<lparr>client := Some (c\<lparr>closed := True\<rparr>),
               manager := (manager k)\<lparr>cleaned_up := True\<rparr>\<rparr>))"

definition shutdown_begin :: "bool \<Rightarrow> KernelInterface \<Rightarrow> unit result \<times> KernelInterface" where
  "shutdown_begin now k =
     (if now then shutdown_finish (k\<lparr>manager := (manager k)\<lparr>killed := True\<rparr>\<rparr>)
      else case client k of
             None \<Rightarrow> (Raised (AttributeError ''shutdown_or_terminate''), k)
           | Some c \<Rightarrow> (Suspended, k\<lparr>client := Some (c\<lparr>shutdown_requested := True\<rparr>)\<rparr>))"

definition shutdown_resume :: "io \<Rightarrow> KernelInterface \<Rightarrow> unit result \<times> KernelInterface" where
  "shutdown_resume out k =
     (case out of
        Resolves \<Rightarrow> shutdown_finish k
      | Fails e \<Rightarrow> (Raised e, k)
      | Pending \<Rightarrow> (Suspended, k))"

definition shutdown :: "bool \<Rightarrow> io \<Rightarrow> KernelInterface \<Rightarrow> unit result \<times> KernelInterface" where
  "shutdown now out k =
     (case shutdown_begin now k of
        (Suspended, k1) \<Rightarrow> shutdown_resume out k1
      | (Returned u, k1) \<Rightarrow> (Returned u, k1)
      | (Raised e, k1) \<Rightarrow> (Raised e, k1))"

definition interrupt :: "KernelInterface \<Rightarrow> KernelInterface" where
  "interrupt k = k\<lparr>manager := (manager k)\<lparr>interrupts := Suc (interrupts (manager k))\<rparr>\<rparr>"

text \<open>
  \<^verbatim>\<open>_handle_kernel_restarted\<close>: the session adopts the restarter's new process
  handle and calls \<^verbatim>\<open>connect_client\<close> without waiting for it.
\<close>

definition handle_kernel_restarted :: "process_handle \<Rightarrow> io \<Rightarrow> KernelInterface \<Rightarrow> KernelInterface" where
  "handle_kernel_restarted new_manager ready k =
     snd (connect_client ready (k\<lparr>manager := new_manager\<rparr>))"

section \<open>MappingKernelManager\<close>

text \<open>
  The registry. \<open>kernels\<close> is the dictionary \<^verbatim>\<open>_kernels\<close> in insertion order
  (assignment is \<open>AList.update\<close>, \<^verbatim>\<open>pop\<close> is \<open>AList.delete\<close>, lookup is
  \<open>map_of\<close>); \<open>kernel_connections\<close> is the dictionary
  \<^verbatim>\<open>_kernel_connections\<close>; \<open>running_total\<close> is the gauge
  \<^verbatim>\<open>KERNEL_CURRENTLY_RUNNING_TOTAL\<close>, one value per \<^verbatim>\<open>type\<close> label
  (\<open>gauge\<close> reads it, a label not yet used standing at 0);
  \<open>culler_callback\<close> is the period, in milliseconds, of the
  \<^verbatim>\<open>PeriodicCallback\<close> once it is started. The length of
  \<^verbatim>\<open>kernel_info_timeout\<close> is not stored: whether a start finishes within it is
  the \<open>io\<close> outcome given to \<open>restart_kernel\<close>.
\<close>

record MappingKernelManager =
  kernels :: "(string \<times> KernelInterface) list"
  kernel_connections :: "(string \<times> int) list"
  cull_idle_timeout :: int
  cull_interval :: int
  cull_connected :: bool
  cull_busy :: bool
  buffer_offline_messages :: bool
  last_kernel_activity :: int
  initialized_culler :: bool
  culler_callback :: "int option"
  running_total :: "(string \<times> int) list"

definition cull_interval_default :: int where
  "cull_interval_default = 300"

definition MappingKernelManager_init :: "int \<Rightarrow> MappingKernelManager" where
  "MappingKernelManager_init now =
     \<lparr>kernels = [], kernel_connections = [], cull_idle_timeout = 0,
      cull_interval = cull_interval_default, cull_connected = False, cull_busy = False,
      buffer_offline_messages = True, last_kernel_activity = now,
      initialized_culler = False, culler_callback = None, running_total = []\<rparr>"

definition contains :: "MappingKernelManager \<Rightarrow> string \<Rightarrow> bool" where
  "contains m kernel_id \<longleftrightarrow> map_of (kernels m) kernel_id \<noteq> None"

definition check_kernel_id :: "string \<Rightarrow> MappingKernelManager \<Rightarrow> error + unit" where
  "check_kernel_id kernel_id m =
     (if \<not> contains m kernel_id
      then Inl (HTTPError 404 (''Kernel does not exist: '' @ kernel_id))
      else Inr ())"

definition get_kernel :: "MappingKernelManager \<Rightarrow> string \<Rightarrow> error + KernelInterface" where
  "get_kernel m kernel_id =
     (case map_of (kernels m) kernel_id of
        None \<Rightarrow> Inl (KeyError kernel_id)
      | Some k \<Rightarrow> Inr k)"

definition list_kernel_ids :: "MappingKernelManager \<Rightarrow> string list" where
  "list_kernel_ids m = map fst (kernels m)"

definition gauge :: "MappingKernelManager \<Rightarrow> string \<Rightarrow> int" where
  "gauge m label = (case map_of (running_total m) label of None \<Rightarrow> 0 | Some v \<Rightarrow> v)"

definition inc :: "string \<Rightarrow> MappingKernelManager \<Rightarrow> MappingKernelManager" where
  "inc label m = m\<lparr>running_total := AList.update label (gauge m label + 1) (running_total m)\<rparr>"

definition dec :: "string \<Rightarrow> MappingKernelManager \<Rightarrow> MappingKernelManager" where
  "dec label m = m\<lparr>running_total := AList.update label (gauge m label - 1) (running_total m)\<rparr>"

text \<open>
  \<^verbatim>\<open>_handle_kernel_died\<close>, the callback of the restarter's \<^verbatim>\<open>dead\<close> event.
  The Python returns nothing; the model returns the session object that was popped, in
  its final state.
\<close>

definition handle_kernel_died ::
  "string \<Rightarrow> MappingKernelManager \<Rightarrow> KernelInterface result \<times> MappingKernelManager" where
  "handle_kernel_died kernel_id m =
     (case map_of (kernels m) kernel_id of
        None \<Rightarrow> (Raised (KeyError kernel_id), m)
      | Some kern \<Rightarrow>
          (let m1 = m\<lparr>kernels := AList.delete kernel_id (kernels m)\<rparr> in
           case client kern of
             None \<Rightarrow> (Raised (AttributeError ''close''), m1)
           | Some c \<Rightarrow>
               (Returned
                  (kern\<lparr>client := Some (c\<lparr>closed := True\<rparr>),
                         manager := (manager kern)\<lparr>cleaned_up := True\<rparr>\<rparr>),
                inc (kernel_type kern) m1)))"

text \<open>
  \<^verbatim>\<open>start_watching_activity\<close> attaches the closure \<^verbatim>\<open>record_activity\<close>
  to the \<^verbatim>\<open>iopub\<close> channel of the session registered under \<open>kernel_id\<close>.
  The closure captures the registry (\<^verbatim>\<open>self\<close>) and that session object
  (\<^verbatim>\<open>kernel\<close>), not the identifier: \<open>record_activity now msg m kern\<close> is
  its body run at time \<open>now\<close> on the registry \<open>m\<close> and the captured object
  \<open>kern\<close>, and returns both. Whether the registry still holds the captured object
  is for the caller to say: where it does, the new object is written to its entry.
\<close>

definition start_watching_activity :: "string \<Rightarrow> KernelInterface \<Rightarrow> unit result \<times> KernelInterface" where
  "start_watching_activity kernel_id kern =
     (case client kern of
        None \<Rightarrow> (Raised (AttributeError ''add_handler''), kern)
      | Some c \<Rightarrow>
          (Returned (),
           kern\<lparr>client := Some (add_handler ''iopub'' (RecordActivity kernel_id) c)\<rparr>))"

definition record_activity ::
  "int \<Rightarrow> message \<Rightarrow> MappingKernelManager \<Rightarrow> KernelInterface
     \<Rightarrow> MappingKernelManager \<times> KernelInterface" where
  "record_activity now msg m kern =
     (let k1 = kern\<lparr>last_activity := Some now\<rparr>;
          k2 = (if msg_type msg = ''status''
                then k1\<lparr>execution_state := msg_execution_state msg\<rparr> else k1)
      in (m\<lparr>last_kernel_activity := now\<rparr>, k2))"

text \<open>
  \<^verbatim>\<open>_start_kernel\<close>: \<open>launch\<close> is the exception, if any, that
  \<^verbatim>\<open>kernel_finder.launch\<close> raises inside the constructor, \<open>ready\<close> the outcome
  of the awaited \<^verbatim>\<open>connect_client\<close>. The entry is written only after that wait.
\<close>

definition start_kernel_internal ::
  "int \<Rightarrow> error option \<Rightarrow> io \<Rightarrow> string \<Rightarrow> string \<Rightarrow> MappingKernelManager
     \<Rightarrow> unit result \<times> MappingKernelManager" where
  "start_kernel_internal now launch ready kernel_id kt m =
     (case launch of
        Some e \<Rightarrow> (Raised e, m)
      | None \<Rightarrow>
          (case connect_client ready (KernelInterface_init now kt) of
             (Raised e, _) \<Rightarrow> (Raised e, m)
           | (Suspended, _) \<Rightarrow> (Suspended, m)
           | (Returned _, kern) \<Rightarrow>
               (case start_watching_activity kernel_id kern of
                  (Raised e, k1) \<Rightarrow>
                    (Raised e, m\<lparr>kernels := AList.update kernel_id k1 (kernels m)\<rparr>)
                | (Suspended, k1) \<Rightarrow>
                    (Suspended, m\<lparr>kernels := AList.update kernel_id k1 (kernels m)\<rparr>)
                | (Returned _, k1) \<Rightarrow>
                    (Returned (), m\<lparr>kernels := AList.update kernel_id k1 (kernels m)\<rparr>))))"

text \<open>
  \<^verbatim>\<open>initialize_culler\<close>: the periodic callback is created once, and only for a
  positive idle timeout; a poll interval that is not positive is replaced by the default.
\<close>

definition initialize_culler :: "MappingKernelManager \<Rightarrow> MappingKernelManager" where
  "initialize_culler m =
     (let m1 =
        (if \<not> initialized_culler m \<and> cull_idle_timeout m > 0 \<and> culler_callback m = None
         then (let m0 = (if cull_interval m \<le> 0
                         then m\<lparr>cull_interval := cull_interval_default\<rparr> else m)
               in m0\<lparr>culler_callback := Some (1000 * cull_interval m0)\<rparr>)
         else m)
      in m1\<lparr>initialized_culler := True\<rparr>)"

text \<open>
  \<^verbatim>\<open>start_kernel\<close>. \<open>new_id\<close> is the value of \<^verbatim>\<open>str(uuid.uuid4())\<close>. The
  \<^verbatim>\<open>path\<close> argument only fills \<^verbatim>\<open>kwargs['cwd']\<close>, which nothing reads
  afterwards, so it is left out.
\<close>

definition resolve_kernel_name :: "string option \<Rightarrow> string" where
  "resolve_kernel_name kernel_name =
     (case kernel_name of
        None \<Rightarrow> ''pyimport/kernel''
      | Some n \<Rightarrow> (if CHR ''/'' \<notin> set n then ''spec/'' @ n else n))"

definition start_kernel ::
  "int \<Rightarrow> string \<Rightarrow> error option \<Rightarrow> io \<Rightarrow> string option \<Rightarrow> string option
     \<Rightarrow> MappingKernelManager \<Rightarrow> string result \<times> MappingKernelManager" where
  "start_kernel now new_id launch ready kernel_id kernel_name m =
     (let finish = (\<lambda>kid m1.
            (Returned kid, if \<not> initialized_culler m1 then initialize_culler m1 else m1)) in
      case kernel_id of
        None \<Rightarrow>
          (case start_kernel_internal now launch ready new_id
                  (resolve_kernel_name kernel_name) m of
             (Raised e, m1) \<Rightarrow> (Raised e, m1)
           | (Suspended, m1) \<Rightarrow> (Suspended, m1)
           | (Returned _, m1) \<Rightarrow>
               (case map_of (kernels m1) new_id of
                  None \<Rightarrow> (Raised (KeyError new_id), m1)
                | Some kern \<Rightarrow> finish new_id (inc (kernel_type kern) m1)))
      | Some kid \<Rightarrow>
          (case check_kernel_id kid m of
             Inl e \<Rightarrow> (Raised e, m)
           | Inr _ \<Rightarrow> finish kid m))"

text \<open>
  \<^verbatim>\<open>MappingKernelManager.start_buffering\<close>. With offline buffering disabled the
  supplied streams are closed, and the model returns the names of the channels it closed;
  otherwise the session's previous buffering state is cleared before the session's own
  \<^verbatim>\<open>start_buffering\<close> runs.
\<close>

definition manager_start_buffering ::
  "string \<Rightarrow> string \<Rightarrow> string list \<Rightarrow> MappingKernelManager
     \<Rightarrow> string list result \<times> MappingKernelManager" where
  "manager_start_buffering kernel_id session_key channels m =
     (if \<not> buffer_offline_messages m then (Returned channels, m)
      else case check_kernel_id kernel_id m of
             Inl e \<Rightarrow> (Raised e, m)
           | Inr _ \<Rightarrow>
               (case map_of (kernels m) kernel_id of
                  None \<Rightarrow> (Raised (KeyError kernel_id), m)
                | Some kern \<Rightarrow>
                    (case stop_buffering kern of
                       (Raised e, k1) \<Rightarrow>
                         (Raised e, m\<lparr>kernels := AList.update kernel_id k1 (kernels m)\<rparr>)
                     | (Suspended, k1) \<Rightarrow>
                         (Suspended, m\<lparr>kernels := AList.update kernel_id k1 (kernels m)\<rparr>)
                     | (Returned _, k1) \<Rightarrow>
                         (case start_buffering session_key k1 of
                            (Raised e, k2) \<Rightarrow>
                              (Raised e, m\<lparr>kernels := AList.update kernel_id k2 (kernels m)\<rparr>)
                          | (Suspended, k2) \<Rightarrow>
                              (Suspended, m\<lparr>kernels := AList.update kernel_id k2 (kernels m)\<rparr>)
                          | (Returned _, k2) \<Rightarrow>
                              (Returned [], m\<lparr>kernels := AList.update kernel_id k2 (kernels m)\<rparr>)))))"

text \<open>
  \<^verbatim>\<open>shutdown_kernel\<close> is a coroutine: the check, the \<^verbatim>\<open>pop\<close> and the call
  of \<^verbatim>\<open>kernel.shutdown()\<close> up to its \<^verbatim>\<open>yield\<close> run at once
  (\<open>shutdown_kernel_begin\<close>, which hands back the popped session and the registry as
  other callers see it while the teardown is awaited); the rest runs when the awaited
  future has the outcome \<open>out\<close> (\<open>shutdown_kernel_resume\<close>, at time \<open>now\<close>).
  The argument \<^verbatim>\<open>now\<close> of the Python method is not passed on to
  \<^verbatim>\<open>kernel.shutdown()\<close>, which therefore always runs with its default
  \<^verbatim>\<open>False\<close>; the model's \<open>immediate\<close> is that ignored argument.
\<close>

definition shutdown_kernel_begin ::
  "string \<Rightarrow> bool \<Rightarrow> MappingKernelManager
     \<Rightarrow> error + (unit result \<times> KernelInterface \<times> MappingKernelManager)" where
  "shutdown_kernel_begin kernel_id immediate m =
     (case check_kernel_id kernel_id m of
        Inl e \<Rightarrow> Inl e
      | Inr _ \<Rightarrow>
          (case map_of (kernels m) kernel_id of
             None \<Rightarrow> Inl (KeyError kernel_id)
           | Some kern \<Rightarrow>
               (let m1 = m\<lparr>kernels := AList.delete kernel_id (kernels m)\<rparr>;
                    (r, k1) = shutdown_begin False kern
                in Inr (r, k1, m1))))"

definition shutdown_kernel_resume ::
  "int \<Rightarrow> io \<Rightarrow> unit result \<times> KernelInterface \<times> MappingKernelManager
     \<Rightarrow> KernelInterface result \<times> MappingKernelManager" where
  "shutdown_kernel_resume now out st =
     (case st of (r, k1, m1) \<Rightarrow>
        (case (case r of Suspended \<Rightarrow> shutdown_resume out k1 | _ \<Rightarrow> (r, k1)) of
           (Raised e, k2) \<Rightarrow> (Raised e, m1)
         | (Suspended, k2) \<Rightarrow> (Suspended, m1)
         | (Returned _, k2) \<Rightarrow>
             (Returned k2, dec (kernel_type k2) (m1\<lparr>last_kernel_activity := now\<rparr>))))"

definition shutdown_kernel ::
  "int \<Rightarrow> io \<Rightarrow> string \<Rightarrow> bool \<Rightarrow> MappingKernelManager
     \<Rightarrow> KernelInterface result \<times> MappingKernelManager" where
  "shutdown_kernel now out kernel_id immediate m =
     (case shutdown_kernel_begin kernel_id immediate m of
        Inl e \<Rightarrow> (Raised e, m)
      | Inr st \<Rightarrow> shutdown_kernel_resume now out st)"

text \<open>
  \<^verbatim>\<open>restart_kernel\<close>. The session object stays in \<^verbatim>\<open>_kernels\<close> while its
  \<^verbatim>\<open>shutdown()\<close> runs, so the entry shows the object as the shutdown left it;
  \<open>restart_kernel_shutdown\<close> is the method up to the end of that shutdown, the
  point at which the replacement's start is awaited.
  \<open>out\<close> is the outcome of the graceful-shutdown request; \<open>launch\<close> and
  \<open>ready\<close> are those of the replacement's \<^verbatim>\<open>_start_kernel\<close>, run under
  \<^verbatim>\<open>gen.with_timeout\<close>: a start still pending at the deadline is the
  \<^verbatim>\<open>gen.TimeoutError\<close> branch, and so is a \<^verbatim>\<open>gen.TimeoutError\<close> that
  the start itself raises, since the \<^verbatim>\<open>except\<close> clause catches both.
\<close>

definition restart_kernel_shutdown ::
  "io \<Rightarrow> string \<Rightarrow> MappingKernelManager \<Rightarrow> KernelInterface result \<times> MappingKernelManager" where
  "restart_kernel_shutdown out kernel_id m =
     (case check_kernel_id kernel_id m of
        Inl e \<Rightarrow> (Raised e, m)
      | Inr _ \<Rightarrow>
          (case get_kernel m kernel_id of
             Inl e \<Rightarrow> (Raised e, m)
           | Inr kern \<Rightarrow>
               (let (r, k1) = shutdown False out kern;
                    m1 = m\<lparr>kernels := AList.update kernel_id k1 (kernels m)\<rparr>
                in case r of
                     Raised e \<Rightarrow> (Raised e, m1)
                   | Suspended \<Rightarrow> (Suspended, m1)
                   | Returned _ \<Rightarrow> (Returned k1, m1))))"

definition restart_kernel ::
  "int \<Rightarrow> io \<Rightarrow> error option \<Rightarrow> io \<Rightarrow> string \<Rightarrow> MappingKernelManager
     \<Rightarrow> unit result \<times> MappingKernelManager" where
  "restart_kernel now out launch ready kernel_id m =
     (case restart_kernel_shutdown out kernel_id m of
        (Raised e, m1) \<Rightarrow> (Raised e, m1)
      | (Suspended, m1) \<Rightarrow> (Suspended, m1)
      | (Returned k1, m1) \<Rightarrow>
          (case start_kernel_internal now launch ready kernel_id (kernel_type k1) m1 of
             (Suspended, m2) \<Rightarrow>
               (Raised (TimeoutError ''Timeout waiting for restart''),
                dec (kernel_type k1) m2)
           | (Raised e, m2) \<Rightarrow>
               (case e of
                  TimeoutError msg \<Rightarrow>
                    (Raised (TimeoutError ''Timeout waiting for restart''),
                     dec (kernel_type k1) m2)
                | _ \<Rightarrow> (Raised e, m2))
           | (Returned _, m2) \<Rightarrow> (Returned (), m2)))"

text \<open>
  \<^verbatim>\<open>gen.with_timeout\<close> does not cancel the \<^verbatim>\<open>_start_kernel\<close> it waits
  for. When that start's \<^verbatim>\<open>connect_client\<close> resolves after the deadline, the
  rest of \<^verbatim>\<open>_start_kernel\<close> runs then, on the registry as it is at that time:
  the session it built (at time \<open>built\<close>) is written under the identifier and gets
  its activity watcher.
\<close>

definition late_start_completion ::
  "int \<Rightarrow> string \<Rightarrow> string \<Rightarrow> MappingKernelManager \<Rightarrow> MappingKernelManager" where
  "late_start_completion built kernel_id kt m =
     snd (start_kernel_internal built None Resolves kernel_id kt m)"

text \<open>
  \<^verbatim>\<open>notify_connect\<close> and \<^verbatim>\<open>notify_disconnect\<close>: Python integers are
  unbounded, and neither method tests the counter.
\<close>

definition notify_connect :: "string \<Rightarrow> MappingKernelManager \<Rightarrow> MappingKernelManager" where
  "notify_connect kernel_id m =
     (case map_of (kernels m) kernel_id of
        None \<Rightarrow> m
      | Some kern \<Rightarrow>
          m\<lparr>kernels :=
              AList.update kernel_id (kern\<lparr>n_connections := n_connections kern + 1\<rparr>)
                (kernels m)\<rparr>)"

definition notify_disconnect :: "string \<Rightarrow> MappingKernelManager \<Rightarrow> MappingKernelManager" where
  "notify_disconnect kernel_id m =
     (case map_of (kernels m) kernel_id of
        None \<Rightarrow> m
      | Some kern \<Rightarrow>
          m\<lparr>kernels :=
              AList.update kernel_id (kern\<lparr>n_connections := n_connections kern - 1\<rparr>)
                (kernels m)\<rparr>)"

text \<open>
  \<^verbatim>\<open>kernel_model\<close> and \<^verbatim>\<open>list_kernels\<close>. \<^verbatim>\<open>isoformat\<close> (of
  \<^verbatim>\<open>notebook._tz\<close>) renders the time stamp as text; the model keeps the time
  stamp.
\<close>

record model =
  model_id :: string
  model_name :: string
  model_last_activity :: "int option"
  model_execution_state :: string
  model_connections :: int

definition kernel_model :: "MappingKernelManager \<Rightarrow> string \<Rightarrow> error + model" where
  "kernel_model m kernel_id =
     (case check_kernel_id kernel_id m of
        Inl e \<Rightarrow> Inl e
      | Inr _ \<Rightarrow>
          (case map_of (kernels m) kernel_id of
             None \<Rightarrow> Inl (KeyError kernel_id)
           | Some kern \<Rightarrow>
               Inr \<lparr>model_id = kernel_id, model_name = kernel_type kern,
                    model_last_activity = last_activity kern,
                    model_execution_state = execution_state kern,
                    model_connections = n_connections kern\<rparr>))"

fun collect_models :: "MappingKernelManager \<Rightarrow> string list \<Rightarrow> error + model list" where
  "collect_models m [] = Inr []"
| "collect_models m (kernel_id # rest) =
     (case kernel_model m kernel_id of
        Inl e \<Rightarrow> Inl e
      | Inr md \<Rightarrow>
          (case collect_models m rest of
             Inl e \<Rightarrow> Inl e
           | Inr mds \<Rightarrow> Inr (md # mds)))"

definition list_kernels :: "MappingKernelManager \<Rightarrow> error + model list" where
  "list_kernels m = collect_models m (map fst (kernels m))"

text \<open>
  The culler. \<^verbatim>\<open>cull_kernel_if_idle\<close> builds the arguments of its first
  \<^verbatim>\<open>log.debug\<close> call by reading \<^verbatim>\<open>kernel.kernel_name\<close>. Time stamps are
  in microseconds, so \<^verbatim>\<open>timedelta(seconds=t)\<close> is \<open>1000000 * t\<close>. The
  connection count it tests comes from \<^verbatim>\<open>_kernel_connections.get(kernel_id, 0)\<close>.
  Its \<^verbatim>\<open>kernel.shutdown()\<close> is called and not awaited, so only the part before
  the \<^verbatim>\<open>yield\<close> runs within the call, on the object still held by
  \<^verbatim>\<open>_kernels\<close>.
\<close>

definition timedelta_seconds :: "int \<Rightarrow> int" where
  "timedelta_seconds t = 1000000 * t"

definition cull_kernel_if_idle ::
  "int \<Rightarrow> string \<Rightarrow> MappingKernelManager \<Rightarrow> unit result \<times> MappingKernelManager" where
  "cull_kernel_if_idle now kernel_id m =
     (case map_of (kernels m) kernel_id of
        None \<Rightarrow> (Raised (KeyError kernel_id), m)
      | Some kern \<Rightarrow>
          (case read_attribute ''kernel_name'' of
             Inl e \<Rightarrow> (Raised e, m)
           | Inr _ \<Rightarrow>
               (case last_activity kern of
                  None \<Rightarrow> (Returned (), m)
                | Some la \<Rightarrow>
                    (let dt_idle = now - la;
                         is_idle_time = dt_idle > timedelta_seconds (cull_idle_timeout m);
                         is_idle_execute = (cull_busy m \<or> execution_state kern \<noteq> ''busy'');
                         connections = (case map_of (kernel_connections m) kernel_id of
                                          None \<Rightarrow> 0 | Some n \<Rightarrow> n);
                         is_idle_connected = (cull_connected m \<or> connections = 0)
                     in if is_idle_time \<and> is_idle_execute \<and> is_idle_connected
                        then (Returned (),
                              m\<lparr>kernels :=
                                  AList.update kernel_id (snd (shutdown_begin False kern))
                                    (kernels m)\<rparr>)
                        else (Returned (), m)))))"

text \<open>
  \<^verbatim>\<open>cull_kernels\<close> walks a copy of the key list; an exception of one evaluation
  is logged with the identifier and the walk goes on. The model returns the logged pairs.
\<close>

fun cull_each ::
  "int \<Rightarrow> string list \<Rightarrow> MappingKernelManager \<Rightarrow> (string \<times> error) list \<times> MappingKernelManager" where
  "cull_each now [] m = ([], m)"
| "cull_each now (kernel_id # rest) m =
     (case cull_kernel_if_idle now kernel_id m of
        (Raised e, m1) \<Rightarrow>
          (case cull_each now rest m1 of (logged, m2) \<Rightarrow> ((kernel_id, e) # logged, m2))
      | (Returned _, m1) \<Rightarrow> cull_each now rest m1
      | (Suspended, m1) \<Rightarrow> cull_each now rest m1)"

definition cull_kernels ::
  "int \<Rightarrow> MappingKernelManager \<Rightarrow> (string \<times> error) list \<times> MappingKernelManager" where
  "cull_kernels now m = cull_each now (map fst (kernels m)) m"

section \<open>The culling rule in the specification's words\<close>

text \<open>
  The three eligibility criteria as the specification lists them, for the session
  registered under \<open>kernel_id\<close> at time \<open>now\<close>: (a) the idle duration since the
  last activity exceeds the idle timeout, (b) busy-culling is enabled or the execution
  state is not busy, (c) connected-session culling is enabled or the session has no
  active connection. This is the specification's rule, written down to be compared with
  \<open>cull_kernel_if_idle\<close>.
\<close>

definition eligible_for_culling :: "int \<Rightarrow> MappingKernelManager \<Rightarrow> string \<Rightarrow> bool" where
  "eligible_for_culling now m kernel_id =
     (case map_of (kernels m) kernel_id of
        None \<Rightarrow> False
      | Some kern \<Rightarrow>
          (case last_activity kern of
             None \<Rightarrow> False
           | Some la \<Rightarrow> now - la > timedelta_seconds (cull_idle_timeout m))
          \<and> (cull_busy m \<or> execution_state kern \<noteq> ''busy'')
          \<and> (cull_connected m \<or> n_connections kern = 0))"

section \<open>Scenarios\<close>

text \<open>
  A registry created at time 0 with an idle timeout of 60 seconds and a poll interval of
  one second, in which one session \<^verbatim>\<open>k1\<close> of the default kernel type is started at
  time 0 and reports the execution state \<open>st\<close> at once (the activity closure
  runs on the session object just registered, which the registry still holds).
\<close>

definition culling_config :: MappingKernelManager where
  "culling_config = (MappingKernelManager_init 0)\<lparr>cull_idle_timeout := 60, cull_interval := 1\<rparr>"

definition one_session :: "string \<Rightarrow> MappingKernelManager" where
  "one_session st =
     (let m1 = snd (start_kernel 0 ''k1'' None Resolves None None culling_config) in
      case map_of (kernels m1) ''k1'' of
        None \<Rightarrow> m1
      | Some kern \<Rightarrow>
          (case record_activity 0 \<lparr>msg_type = ''status'', msg_execution_state = st\<rparr> m1 kern of
             (m2, k2) \<Rightarrow> m2\<lparr>kernels := AList.update ''k1'' k2 (kernels m2)\<rparr>))"

section \<open>Sequences of connection notifications\<close>

text \<open>
  The request handlers call \<open>notify_connect\<close> when a viewer's channel opens and
  \<open>notify_disconnect\<close> when it closes; a sequence of such calls is run from left to
  right.
\<close>

datatype notification = Connect string | Disconnect string

fun notify :: "notification \<Rightarrow> MappingKernelManager \<Rightarrow> MappingKernelManager" where
  "notify (Connect kernel_id) m = notify_connect kernel_id m"
| "notify (Disconnect kernel_id) m = notify_disconnect kernel_id m"

fun notify_all :: "notification list \<Rightarrow> MappingKernelManager \<Rightarrow> MappingKernelManager" where
  "notify_all [] m = m"
| "notify_all (n # ns) m = notify_all ns (notify n m)"

text \<open>The session object that \<open>one_session st\<close> holds under \<^verbatim>\<open>k1\<close>.\<close>

definition session_k1 :: "string \<Rightarrow> KernelInterface" where
  "session_k1 st =
     (case map_of (kernels (one_session st)) ''k1'' of
        Some kern \<Rightarrow> kern
      | None \<Rightarrow> KernelInterface_init 0 [])"

section \<open>Buffering handlers and the consistency of a session's buffering state\<close>

text \<open>
  A handler called with a message: a \<^verbatim>\<open>partial(buffer_msg, channel)\<close> appends the
  pair of its channel and the message to the session's buffer. The activity closure is
  \<open>record_activity\<close>, which needs the time and the registry; it leaves the
  buffering state alone, and \<open>run_handler\<close> leaves the session as it is for it.
\<close>

fun run_handler :: "handler \<Rightarrow> message \<Rightarrow> KernelInterface \<Rightarrow> KernelInterface" where
  "run_handler (BufferMsg i channel) msg k = buffer_msg channel msg k"
| "run_handler (RecordActivity kernel_id) msg k = k"

fun is_buffer_handler :: "string \<times> handler \<Rightarrow> bool" where
  "is_buffer_handler (channel, BufferMsg i c) = True"
| "is_buffer_handler (channel, RecordActivity kernel_id) = False"

definition buffering_handlers :: "client_state \<Rightarrow> (string \<times> handler) list" where
  "buffering_handlers c = filter is_buffer_handler (handlers c)"

text \<open>
  The buffering state of a session whose \<^verbatim>\<open>start_buffering\<close> was only ever
  called after a \<^verbatim>\<open>stop_buffering\<close>, as the registry calls it: the buffering
  handlers attached to the client are the recorded ones, and a session with no recorded
  handler has an empty buffer and no owner key. It is not a property of every state of a
  session object: a second \<^verbatim>\<open>start_buffering\<close> in a row breaks it.
\<close>

definition buffering_consistent :: "KernelInterface \<Rightarrow> bool" where
  "buffering_consistent k \<longleftrightarrow>
     (case client k of
        None \<Rightarrow> buffer_handlers k = []
      | Some c \<Rightarrow> buffering_handlers c = buffer_handlers k)
     \<and> (if buffer_handlers k = [] then buffer k = [] \<and> buffer_for_key k = None else True)"

text \<open>
  A session that is buffering: \<open>session_k1 ''idle''\<close> after
  \<^verbatim>\<open>start_buffering('key1')\<close> and one message on the \<^verbatim>\<open>shell\<close> channel, taken
  by the handler attached there; and the registry that holds it under \<^verbatim>\<open>k1\<close>.
\<close>

definition stream_msg :: message where
  "stream_msg = \<lparr>msg_type = ''stream'', msg_execution_state = []\<rparr>"

definition buffering_session :: KernelInterface where
  "buffering_session =
     run_handler (BufferMsg 0 ''shell'') stream_msg
       (snd (start_buffering ''key1'' (session_k1 ''idle'')))"

definition buffering_registry :: MappingKernelManager where
  "buffering_registry =
     (one_session ''idle'')\<lparr>kernels :=
        AList.update ''k1'' buffering_session (kernels (one_session ''idle''))\<rparr>"

section \<open>Live sessions of a kernel type\<close>

definition live_sessions :: "MappingKernelManager \<Rightarrow> string \<Rightarrow> int" where
  "live_sessions m kt =
     int (length (filter (\<lambda>entry. kernel_type (snd entry) = kt) (kernels m)))"

section \<open>Sequences of registry operations\<close>

text \<open>
  The operations the request handlers and the restarter run against one registry, each
  with the time at which it runs and the outcomes of the collaborators it awaits:
  \<open>StartSession\<close> is \<open>start_kernel\<close>, \<open>StopSession\<close> is
  \<open>shutdown_kernel\<close> run to the end of its teardown, \<open>SessionDied\<close> is the
  \<^verbatim>\<open>dead\<close> callback, \<open>Notification\<close> a connect or disconnect notice, and
  \<open>RestartSession\<close> a \<open>restart_kernel\<close> whose shutdown and replacement both
  complete.
\<close>

datatype operation =
    StartSession int string "error option" io "string option" "string option"
  | StopSession int io string bool
  | SessionDied string
  | Notification notification
  | RestartSession int string

fun apply_operation :: "operation \<Rightarrow> MappingKernelManager \<Rightarrow> MappingKernelManager" where
  "apply_operation (StartSession now new_id launch ready kernel_id kernel_name) m =
     snd (start_kernel now new_id launch ready kernel_id kernel_name m)"
| "apply_operation (StopSession now out kernel_id immediate) m =
     snd (shutdown_kernel now out kernel_id immediate m)"
| "apply_operation (SessionDied kernel_id) m = snd (handle_kernel_died kernel_id m)"
| "apply_operation (Notification n) m = notify n m"
| "apply_operation (RestartSession now kernel_id) m =
     snd (restart_kernel now Resolves None Resolves kernel_id m)"

fun apply_operations :: "operation list \<Rightarrow> MappingKernelManager \<Rightarrow> MappingKernelManager" where
  "apply_operations [] m = m"
| "apply_operations (op # ops) m = apply_operations ops (apply_operation op m)"

text \<open>
  The specification's side: the identifiers started and not since stopped or dead. A start
  without an identifier starts \<open>new_id\<close> when the launch succeeds and the kernel
  becomes ready; a stop or a death of an identifier takes it out.
\<close>

fun started_not_ended :: "string set \<Rightarrow> operation \<Rightarrow> string set" where
  "started_not_ended S (StartSession now new_id launch ready None kernel_name) =
     (if launch = None \<and> ready = Resolves then insert new_id S else S)"
| "started_not_ended S (StartSession now new_id launch ready (Some kernel_id) kernel_name) = S"
| "started_not_ended S (StopSession now out kernel_id immediate) = S - {kernel_id}"
| "started_not_ended S (SessionDied kernel_id) = S - {kernel_id}"
| "started_not_ended S (Notification n) = S"
| "started_not_ended S (RestartSession now kernel_id) = S"

text \<open>
  What \<^verbatim>\<open>KernelInterface.shutdown\<close> leaves behind when it has run to its end: a
  closed client and a cleaned-up process handle.
\<close>

definition shut_down :: "KernelInterface \<Rightarrow> bool" where
  "shut_down k \<longleftrightarrow>
     (case client k of None \<Rightarrow> False | Some c \<Rightarrow> closed c) \<and> cleaned_up (manager k)"

definition sample_operations :: "operation list" where
  "sample_operations =
     [StartSession 0 ''a'' None Resolves None None,
      StartSession 1 ''b'' None Resolves None (Some ''python3''),
      Notification (Connect ''a''),
      StopSession 2 Resolves ''a'' False,
      StartSession 3 ''c'' None Pending None None,
      RestartSession 4 ''b'',
      StartSession 5 ''d'' None Resolves None None,
      SessionDied ''b'']"

section \<open>The states of a session object\<close>

text \<open>
  Every state a \<^verbatim>\<open>KernelInterface\<close> object can be in: it is created by the
  constructor, and then changed by its own methods, called in any order and with any
  arguments (\<^verbatim>\<open>connect_client\<close>, \<^verbatim>\<open>shutdown\<close> up to its
  \<^verbatim>\<open>yield\<close> and from it, \<^verbatim>\<open>interrupt\<close>,
  \<^verbatim>\<open>_handle_kernel_restarted\<close>, \<^verbatim>\<open>start_buffering\<close>,
  \<^verbatim>\<open>get_buffer\<close>, \<^verbatim>\<open>stop_buffering\<close>), by the client calling a
  handler attached to it, and by the registry (the activity watcher is attached, activity
  is recorded, the connection counter is written, the death handler closes the client and
  cleans up the process handle).
\<close>

inductive session_state :: "KernelInterface \<Rightarrow> bool" where
  created:
    "session_state (KernelInterface_init now kt)"
| connected:
    "session_state k \<Longrightarrow> session_state (snd (connect_client ready k))"
| watched:
    "session_state k \<Longrightarrow> session_state (snd (start_watching_activity kernel_id k))"
| stopped_buffering:
    "session_state k \<Longrightarrow> session_state (snd (stop_buffering k))"
| started_buffering:
    "session_state k \<Longrightarrow> session_state (snd (start_buffering session_key k))"
| took_buffer:
    "session_state k \<Longrightarrow> session_state (snd (get_buffer k))"
| handler_called:
    "session_state k \<Longrightarrow> client k = Some c \<Longrightarrow> (channel, h) \<in> set (handlers c)
     \<Longrightarrow> session_state (run_handler h msg k)"
| counted:
    "session_state k \<Longrightarrow> session_state (k\<lparr>n_connections := n\<rparr>)"
| activity:
    "session_state k \<Longrightarrow> session_state (snd (record_activity now msg m k))"
| shutdown_begun:
    "session_state k \<Longrightarrow> session_state (snd (shutdown_begin immediate k))"
| shutdown_resumed:
    "session_state k \<Longrightarrow> session_state (snd (shutdown_resume out k))"
| interrupted:
    "session_state k \<Longrightarrow> session_state (interrupt k)"
| restarted:
    "session_state k \<Longrightarrow> session_state (handle_kernel_restarted new_manager ready k)"
| died:
    "session_state k \<Longrightarrow> client k = Some c
     \<Longrightarrow> session_state
           (k\<lparr>client := Some (c\<lparr>closed := True\<rparr>),
              manager := (manager k)\<lparr>cleaned_up := True\<rparr>\<rparr>)"

section \<open>What holds of the buffering state in every state of a session object\<close>

text \<open>
  \<open>handler_below n\<close> holds of an attached or recorded handler unless it is a
  \<^verbatim>\<open>partial\<close> whose identity is \<open>n\<close> or later. In every state of a session
  object (\<open>session_state\<close>), the recorded handlers are buffering handlers made
  earlier; without a client nothing is recorded or buffered; with a client, no buffering
  handler is attached twice, every attached handler was made earlier, and the buffer is
  empty when no buffering handler is attached.
\<close>

fun handler_below :: "nat \<Rightarrow> string \<times> handler \<Rightarrow> bool" where
  "handler_below n (channel, BufferMsg i c) = (i < n)"
| "handler_below n (channel, RecordActivity kernel_id) = True"

definition buffering_wf :: "KernelInterface \<Rightarrow> bool" where
  "buffering_wf k \<longleftrightarrow>
     (\<forall>x \<in> set (buffer_handlers k). is_buffer_handler x \<and> handler_below (handler_seq k) x)
     \<and> (case client k of
          None \<Rightarrow> buffer_handlers k = [] \<and> buffer k = []
        | Some c \<Rightarrow>
            distinct (buffering_handlers c)
            \<and> (\<forall>x \<in> set (handlers c). handler_below (handler_seq k) x)
            \<and> (buffering_handlers c = [] \<longrightarrow> buffer k = []))"

text \<open>
  The buffering session after a second, direct \<^verbatim>\<open>start_buffering('key2')\<close>; the
  registry that holds it under \<^verbatim>\<open>k1\<close>; and the same session after
  \<^verbatim>\<open>get_buffer()\<close> and one more message on the \<^verbatim>\<open>shell\<close> channel, taken by
  the handler of the first \<^verbatim>\<open>start_buffering\<close>, which is still attached.
\<close>

definition twice_started_session :: KernelInterface where
  "twice_started_session = snd (start_buffering ''key2'' buffering_session)"

definition twice_started_registry :: MappingKernelManager where
  "twice_started_registry =
     (one_session ''idle'')\<lparr>kernels :=
        AList.update ''k1'' twice_started_session (kernels (one_session ''idle''))\<rparr>"

definition orphaned_session :: KernelInterface where
  "orphaned_session =
     run_handler (BufferMsg 0 ''shell'') stream_msg (snd (get_buffer twice_started_session))"

section \<open>The idle culler\<close>

lemma read_kernel_name: "read_attribute ''kernel_name'' = Inl (AttributeError ''kernel_name'')"
  by (simp add: read_attribute_def KernelInterface_attributes_def)

lemma cull_kernel_if_idle_registered:
  "map_of (kernels m) kernel_id = Some kern \<Longrightarrow>
   cull_kernel_if_idle now kernel_id m = (Raised (AttributeError ''kernel_name''), m)"
  by (simp add: cull_kernel_if_idle_def read_kernel_name)

lemma cull_each_registered:
  "\<forall>kid \<in> set ids. map_of (kernels m) kid \<noteq> None \<Longrightarrow>
   cull_each now ids m = (map (\<lambda>kid. (kid, AttributeError ''kernel_name'')) ids, m)"
proof (induction ids)
  case Nil
  show ?case by simp
next
  case (Cons kid ids)
  from Cons.prems obtain kern where "map_of (kernels m) kid = Some kern" by auto
  then have "cull_kernel_if_idle now kid m = (Raised (AttributeError ''kernel_name''), m)"
    by (rule cull_kernel_if_idle_registered)
  moreover from Cons
  have "cull_each now ids m = (map (\<lambda>kid. (kid, AttributeError ''kernel_name'')) ids, m)"
    by simp
  ultimately show ?case by simp
qed

lemma keys_registered: "\<forall>kid \<in> set (map fst al). map_of al kid \<noteq> None"
  by (auto simp: map_of_eq_None_iff image_iff)

text \<open>
  Claim C1, at the specification's idle-cull scenario: idle timeout 60 s, last activity at
  time 0, the tick 120 s later, execution state \<^verbatim>\<open>idle\<close>, no connection, neither
  flag set. The session meets the three criteria, and the tick leaves the registry exactly
  as it was, session \<^verbatim>\<open>k1\<close> still registered and untouched; what the tick
  produces is one logged \<^verbatim>\<open>AttributeError\<close>.
\<close>

theorem idle_session_survives_cull_tick:
  "eligible_for_culling 120000000 (one_session ''idle'') ''k1''
   \<and> cull_kernels 120000000 (one_session ''idle'') =
       ([(''k1'', AttributeError ''kernel_name'')], one_session ''idle'')
   \<and> list_kernel_ids (one_session ''idle'') = [''k1'']"
  by code_simp

text \<open>
  Claim C2: for every registered session, \<open>cull_kernel_if_idle\<close> raises
  \<^verbatim>\<open>AttributeError\<close> on \<^verbatim>\<open>kernel_name\<close> whatever the time, the
  configuration and the session's state, and changes nothing; a whole pass of
  \<open>cull_kernels\<close> logs that exception once per registered identifier and returns the
  registry unchanged, so no session is ever shut down by the culler.
\<close>

theorem culler_never_shuts_down:
  "(contains m kernel_id \<longrightarrow>
      cull_kernel_if_idle now kernel_id m = (Raised (AttributeError ''kernel_name''), m))
   \<and> cull_kernels now m =
       (map (\<lambda>kid. (kid, AttributeError ''kernel_name'')) (list_kernel_ids m), m)"
proof
  show "contains m kernel_id \<longrightarrow>
      cull_kernel_if_idle now kernel_id m = (Raised (AttributeError ''kernel_name''), m)"
    by (auto simp: contains_def cull_kernel_if_idle_registered)
  show "cull_kernels now m =
       (map (\<lambda>kid. (kid, AttributeError ''kernel_name'')) (list_kernel_ids m), m)"
    unfolding cull_kernels_def list_kernel_ids_def
    by (rule cull_each_registered) (rule keys_registered)
qed

theorem culler_never_shuts_down_witness:
  "contains (one_session ''busy'') ''k1''
   \<and> cull_kernel_if_idle 120000000 ''k1'' (one_session ''busy'') =
       (Raised (AttributeError ''kernel_name''), one_session ''busy'')
   \<and> cull_kernels 120000000 (one_session ''busy'') =
       ([(''k1'', AttributeError ''kernel_name'')], one_session ''busy'')"
proof -
  have c: "contains (one_session ''busy'') ''k1''" by code_simp
  have l: "list_kernel_ids (one_session ''busy'') = [''k1'']" by code_simp
  from culler_never_shuts_down [of "one_session ''busy''" "''k1''" 120000000] c l
  show ?thesis by simp
qed

section \<open>Membership in the registry\<close>

lemma contains_update [simp]:
  "contains (m\<lparr>kernels := AList.update kid k (kernels m)\<rparr>) x \<longleftrightarrow> x = kid \<or> contains m x"
  by (simp add: contains_def update_conv')

lemma contains_delete [simp]:
  "contains (m\<lparr>kernels := AList.delete kid (kernels m)\<rparr>) x \<longleftrightarrow> x \<noteq> kid \<and> contains m x"
  by (simp add: contains_def delete_conv')

lemma contains_dec [simp]: "contains (dec l m) x = contains m x"
  by (simp add: contains_def dec_def)

lemma contains_inc [simp]: "contains (inc l m) x = contains m x"
  by (simp add: contains_def inc_def)

lemma contains_ids: "contains m x \<longleftrightarrow> x \<in> set (list_kernel_ids m)"
  by (simp add: contains_def list_kernel_ids_def map_of_eq_None_iff)

section \<open>Restart\<close>

lemma start_kernel_internal_contains:
  "start_kernel_internal now launch ready kid kt m = (r, m2) \<Longrightarrow> contains m x
   \<Longrightarrow> contains m2 x"
  by (auto simp: start_kernel_internal_def split: option.splits prod.splits result.splits)

lemma restart_kernel_shutdown_contains:
  "restart_kernel_shutdown out kid m = (r, m1) \<Longrightarrow> contains m x \<Longrightarrow> contains m1 x"
  by (auto simp: restart_kernel_shutdown_def Let_def
      split: sum.splits prod.splits result.splits)

lemma restart_kernel_keeps_identifier:
  assumes "contains m kernel_id"
  shows "contains (snd (restart_kernel now out launch ready kernel_id m)) kernel_id"
proof -
  obtain r m1 where sd: "restart_kernel_shutdown out kernel_id m = (r, m1)"
    by (cases "restart_kernel_shutdown out kernel_id m")
  with assms have m1: "contains m1 kernel_id"
    by (rule restart_kernel_shutdown_contains [rotated])
  show ?thesis
  proof (cases r)
    case (Returned k1)
    obtain r2 m2 where st:
      "start_kernel_internal now launch ready kernel_id (kernel_type k1) m1 = (r2, m2)"
      by (cases "start_kernel_internal now launch ready kernel_id (kernel_type k1) m1")
    with m1 have "contains m2 kernel_id"
      by (rule start_kernel_internal_contains [rotated])
    with sd Returned st show ?thesis
      by (cases r2) (simp_all add: restart_kernel_def split: error.splits)
  next
    case (Raised e)
    with sd m1 show ?thesis by (simp add: restart_kernel_def)
  next
    case Suspended
    with sd m1 show ?thesis by (simp add: restart_kernel_def)
  qed
qed

text \<open>
  Claim C3, at a concrete input: session \<^verbatim>\<open>k1\<close> is live, its graceful shutdown
  completes, and the replacement is not ready by the deadline. \<open>restart_kernel\<close>
  fails with the time-out error and lowers the gauge of running kernels from 1 to 0, yet
  \<^verbatim>\<open>k1\<close> is still a member of the registry and \<open>list_kernels\<close> still
  returns a model for it.
\<close>

theorem restart_timeout_leaves_identifier_bound:
  "fst (restart_kernel 5000000 Resolves None Pending ''k1'' (one_session ''idle''))
     = Raised (TimeoutError ''Timeout waiting for restart'')
   \<and> contains (snd (restart_kernel 5000000 Resolves None Pending ''k1'' (one_session ''idle''))) ''k1''
   \<and> map model_id (projr (list_kernels
         (snd (restart_kernel 5000000 Resolves None Pending ''k1'' (one_session ''idle''))))) = [''k1'']
   \<and> gauge (one_session ''idle'') ''pyimport/kernel'' = 1
   \<and> gauge (snd (restart_kernel 5000000 Resolves None Pending ''k1'' (one_session ''idle'')))
        ''pyimport/kernel'' = 0"
  by code_simp

section \<open>Stopping a session\<close>

lemma check_kernel_id_unknown:
  "\<not> contains m kernel_id \<Longrightarrow>
   check_kernel_id kernel_id m = Inl (HTTPError 404 (''Kernel does not exist: '' @ kernel_id))"
  by (simp add: check_kernel_id_def)

lemma check_kernel_id_known: "contains m kernel_id \<Longrightarrow> check_kernel_id kernel_id m = Inr ()"
  by (simp add: check_kernel_id_def)

lemma shutdown_kernel_resume_registry:
  "kernels (snd (shutdown_kernel_resume now out (r, k1, m1))) = kernels m1"
  by (simp add: shutdown_kernel_resume_def dec_def split: prod.splits result.splits)

text \<open>
  Claim C4: \<open>shutdown_kernel\<close> on an identifier that is not registered raises
  \<^verbatim>\<open>HTTPError(404)\<close> and changes nothing. On a registered identifier, the part
  that runs before the teardown is awaited has already taken the entry out of the registry
  (membership is false, \<open>kernel_model\<close> answers 404, the identifier is not listed,
  other identifiers are unaffected) while the session's client has only been asked to shut
  down and its process handle is untouched; the entry is still absent when the teardown
  has run, whatever its outcome.
\<close>

theorem shutdown_kernel_not_found_or_removed_first:
  "(\<not> contains m kernel_id \<longrightarrow>
      shutdown_kernel now out kernel_id immediate m =
        (Raised (HTTPError 404 (''Kernel does not exist: '' @ kernel_id)), m))
   \<and> (contains m kernel_id \<longrightarrow>
        (\<exists>r k1 m1.
           shutdown_kernel_begin kernel_id immediate m = Inr (r, k1, m1)
           \<and> \<not> contains m1 kernel_id
           \<and> kernel_id \<notin> set (list_kernel_ids m1)
           \<and> kernel_model m1 kernel_id =
                Inl (HTTPError 404 (''Kernel does not exist: '' @ kernel_id))
           \<and> (\<forall>x. x \<noteq> kernel_id \<longrightarrow> contains m1 x = contains m x)
           \<and> (\<forall>kern c. map_of (kernels m) kernel_id = Some kern \<and> client kern = Some c \<longrightarrow>
                  r = Suspended \<and> manager k1 = manager kern
                  \<and> client k1 = Some (c\<lparr>shutdown_requested := True\<rparr>))
           \<and> shutdown_kernel now out kernel_id immediate m =
                shutdown_kernel_resume now out (r, k1, m1)
           \<and> \<not> contains (snd (shutdown_kernel_resume now out (r, k1, m1))) kernel_id))"
proof (intro conjI impI)
  assume "\<not> contains m kernel_id"
  then show "shutdown_kernel now out kernel_id immediate m =
        (Raised (HTTPError 404 (''Kernel does not exist: '' @ kernel_id)), m)"
    by (simp add: shutdown_kernel_def shutdown_kernel_begin_def check_kernel_id_unknown)
next
  assume known: "contains m kernel_id"
  then obtain kern where kern: "map_of (kernels m) kernel_id = Some kern"
    by (auto simp: contains_def)
  define m1 where "m1 = m\<lparr>kernels := AList.delete kernel_id (kernels m)\<rparr>"
  define r where "r = fst (shutdown_begin False kern)"
  define k1 where "k1 = snd (shutdown_begin False kern)"
  have started: "shutdown_kernel_begin kernel_id immediate m = Inr (r, k1, m1)"
    using known kern
    by (simp add: shutdown_kernel_begin_def check_kernel_id_known m1_def r_def k1_def
        split: prod.splits)
  have gone: "\<not> contains m1 kernel_id"
    by (simp add: m1_def)
  have others: "\<forall>x. x \<noteq> kernel_id \<longrightarrow> contains m1 x = contains m x"
    by (simp add: m1_def)
  have pending: "\<forall>kern' c. map_of (kernels m) kernel_id = Some kern' \<and> client kern' = Some c \<longrightarrow>
                  r = Suspended \<and> manager k1 = manager kern'
                  \<and> client k1 = Some (c\<lparr>shutdown_requested := True\<rparr>)"
    using kern by (auto simp: r_def k1_def shutdown_begin_def)
  have after: "\<not> contains (snd (shutdown_kernel_resume now out (r, k1, m1))) kernel_id"
    using gone by (simp add: contains_def shutdown_kernel_resume_registry)
  have ids: "kernel_id \<notin> set (list_kernel_ids m1)"
    using gone by (simp add: contains_ids)
  have absent: "kernel_model m1 kernel_id =
                Inl (HTTPError 404 (''Kernel does not exist: '' @ kernel_id))"
    using gone by (simp add: kernel_model_def check_kernel_id_unknown)
  have whole: "shutdown_kernel now out kernel_id immediate m =
                shutdown_kernel_resume now out (r, k1, m1)"
    using started by (simp add: shutdown_kernel_def)
  from started gone ids absent others pending whole after
  show "\<exists>r k1 m1.
           shutdown_kernel_begin kernel_id immediate m = Inr (r, k1, m1)
           \<and> \<not> contains m1 kernel_id
           \<and> kernel_id \<notin> set (list_kernel_ids m1)
           \<and> kernel_model m1 kernel_id =
                Inl (HTTPError 404 (''Kernel does not exist: '' @ kernel_id))
           \<and> (\<forall>x. x \<noteq> kernel_id \<longrightarrow> contains m1 x = contains m x)
           \<and> (\<forall>kern c. map_of (kernels m) kernel_id = Some kern \<and> client kern = Some c \<longrightarrow>
                  r = Suspended \<and> manager k1 = manager kern
                  \<and> client k1 = Some (c\<lparr>shutdown_requested := True\<rparr>))
           \<and> shutdown_kernel now out kernel_id immediate m =
                shutdown_kernel_resume now out (r, k1, m1)
           \<and> \<not> contains (snd (shutdown_kernel_resume now out (r, k1, m1))) kernel_id"
    by blast
qed


theorem shutdown_kernel_not_found_or_removed_first_witness:
  "\<not> contains (one_session ''idle'') ''k2''
   \<and> shutdown_kernel 9 Resolves ''k2'' False (one_session ''idle'') =
        (Raised (HTTPError 404 ''Kernel does not exist: k2''), one_session ''idle'')
   \<and> contains (one_session ''idle'') ''k1''
   \<and> \<not> contains (snd (shutdown_kernel 9 Resolves ''k1'' False (one_session ''idle''))) ''k1''"
proof -
  have a: "\<not> contains (one_session ''idle'') ''k2''" by code_simp
  have b: "contains (one_session ''idle'') ''k1''" by code_simp
  from shutdown_kernel_not_found_or_removed_first [of "one_session ''idle''" "''k2''" 9 Resolves False] a
  have c: "shutdown_kernel 9 Resolves ''k2'' False (one_session ''idle'') =
        (Raised (HTTPError 404 ''Kernel does not exist: k2''), one_session ''idle'')"
    by simp
  from shutdown_kernel_not_found_or_removed_first [of "one_session ''idle''" "''k1''" 9 Resolves False] b
  have d: "\<not> contains (snd (shutdown_kernel 9 Resolves ''k1'' False (one_session ''idle''))) ''k1''"
    by auto
  from a b c d show ?thesis by simp
qed

section \<open>Connection counting\<close>


lemma notify_unknown:
  "\<not> contains m kernel_id \<Longrightarrow>
   notify_connect kernel_id m = m \<and> notify_disconnect kernel_id m = m"
  by (simp add: contains_def notify_connect_def notify_disconnect_def)

lemma notify_count:
  "map_of (kernels m) kernel_id = Some kern \<Longrightarrow>
   \<exists>kern'. map_of (kernels (notify n m)) kernel_id = Some kern'
     \<and> n_connections kern' =
         n_connections kern + (if n = Connect kernel_id then 1 else 0)
                            - (if n = Disconnect kernel_id then 1 else 0)"
  by (cases n)
     (auto simp: notify_connect_def notify_disconnect_def update_conv' split: option.splits)

lemma notify_all_count:
  "map_of (kernels m) kernel_id = Some kern \<Longrightarrow>
   \<exists>kern'. map_of (kernels (notify_all ns m)) kernel_id = Some kern'
     \<and> n_connections kern' =
         n_connections kern + int (count_list ns (Connect kernel_id))
                            - int (count_list ns (Disconnect kernel_id))"
proof (induction ns arbitrary: m kern)
  case Nil
  then show ?case by simp
next
  case (Cons n ns)
  from notify_count [OF Cons.prems, of n] obtain k1 where
    k1: "map_of (kernels (notify n m)) kernel_id = Some k1"
    and c1: "n_connections k1 =
         n_connections kern + (if n = Connect kernel_id then 1 else 0)
                            - (if n = Disconnect kernel_id then 1 else 0)"
    by blast
  from Cons.IH [OF k1] obtain k2 where
    k2: "map_of (kernels (notify_all ns (notify n m))) kernel_id = Some k2"
    and c2: "n_connections k2 =
         n_connections k1 + int (count_list ns (Connect kernel_id))
                          - int (count_list ns (Disconnect kernel_id))"
    by blast
  from k2 c1 c2 show ?case by auto
qed

text \<open>
  Claim C6, as amended: a notification for an identifier that is not registered changes
  nothing; for a registered session, after any sequence of notifications the connection
  count is the count before, plus the number of connect notifications for that session,
  minus the number of disconnect notifications for it. So it is at least 0 whenever the
  disconnects do not outnumber the earlier count plus the connects.
\<close>

theorem connection_count_is_connects_minus_disconnects:
  "(\<not> contains m kernel_id \<longrightarrow>
      notify_connect kernel_id m = m \<and> notify_disconnect kernel_id m = m)
   \<and> (\<forall>kern. map_of (kernels m) kernel_id = Some kern \<longrightarrow>
        (\<exists>kern'. map_of (kernels (notify_all ns m)) kernel_id = Some kern'
           \<and> n_connections kern' =
               n_connections kern + int (count_list ns (Connect kernel_id))
                                  - int (count_list ns (Disconnect kernel_id))
           \<and> (int (count_list ns (Disconnect kernel_id))
                 \<le> n_connections kern + int (count_list ns (Connect kernel_id))
               \<longrightarrow> 0 \<le> n_connections kern')))"
proof (intro conjI impI allI)
  assume "\<not> contains m kernel_id"
  then show "notify_connect kernel_id m = m" "notify_disconnect kernel_id m = m"
    by (simp_all add: notify_unknown)
next
  fix kern
  assume "map_of (kernels m) kernel_id = Some kern"
  from notify_all_count [OF this, of ns] obtain kern' where
    "map_of (kernels (notify_all ns m)) kernel_id = Some kern'"
    "n_connections kern' =
         n_connections kern + int (count_list ns (Connect kernel_id))
                            - int (count_list ns (Disconnect kernel_id))"
    by blast
  then show "\<exists>kern'. map_of (kernels (notify_all ns m)) kernel_id = Some kern'
           \<and> n_connections kern' =
               n_connections kern + int (count_list ns (Connect kernel_id))
                                  - int (count_list ns (Disconnect kernel_id))
           \<and> (int (count_list ns (Disconnect kernel_id))
                 \<le> n_connections kern + int (count_list ns (Connect kernel_id))
               \<longrightarrow> 0 \<le> n_connections kern')"
    by auto
qed

text \<open>
  Claim C6 as stated fails: one disconnect notification for a session with no connection
  takes the count from 0 to \<open>- 1\<close>, which \<open>kernel_model\<close> then reports.
\<close>

theorem disconnect_without_connect_goes_negative:
  "kernel_model (one_session ''idle'') ''k1'' =
     Inr \<lparr>model_id = ''k1'', model_name = ''pyimport/kernel'', model_last_activity = Some 0,
          model_execution_state = ''idle'', model_connections = 0\<rparr>
   \<and> kernel_model (notify_all [Disconnect ''k1''] (one_session ''idle'')) ''k1'' =
     Inr \<lparr>model_id = ''k1'', model_name = ''pyimport/kernel'', model_last_activity = Some 0,
          model_execution_state = ''idle'', model_connections = - 1\<rparr>"
  by code_simp

lemma one_session_k1: "map_of (kernels (one_session ''idle'')) ''k1'' = Some (session_k1 ''idle'')"
  by code_simp

theorem connection_count_is_connects_minus_disconnects_witness:
  "\<not> contains (one_session ''idle'') ''k2''
   \<and> notify_connect ''k2'' (one_session ''idle'') = one_session ''idle''
   \<and> map_option n_connections
        (map_of (kernels (notify_all
            [Connect ''k1'', Connect ''k1'', Connect ''k1'', Disconnect ''k1'']
            (one_session ''idle''))) ''k1'') = Some 2"
proof -
  have a: "\<not> contains (one_session ''idle'') ''k2''" by code_simp
  have c: "n_connections (session_k1 ''idle'') = 0" by code_simp
  have d: "count_list [Connect ''k1'', Connect ''k1'', Connect ''k1'', Disconnect ''k1'']
             (Connect ''k1'') = 3"
          "count_list [Connect ''k1'', Connect ''k1'', Connect ''k1'', Disconnect ''k1'']
             (Disconnect ''k1'') = 1"
    by simp_all
  from connection_count_is_connects_minus_disconnects
         [of "one_session ''idle''" "''k2''" "[]"] a
  have e: "notify_connect ''k2'' (one_session ''idle'') = one_session ''idle''"
    by simp
  from connection_count_is_connects_minus_disconnects
         [of "one_session ''idle''" "''k1''"
             "[Connect ''k1'', Connect ''k1'', Connect ''k1'', Disconnect ''k1'']"]
    one_session_k1 c d
  have f: "map_option n_connections
        (map_of (kernels (notify_all
            [Connect ''k1'', Connect ''k1'', Connect ''k1'', Disconnect ''k1'']
            (one_session ''idle''))) ''k1'') = Some 2"
    by auto
  from a e f show ?thesis by simp
qed

section \<open>Buffering\<close>

lemma filter_remove1:
  "filter P (remove1 x xs) = (if P x then remove1 x (filter P xs) else filter P xs)"
  by (induction xs) auto

lemma remove_handlers_recorded:
  "buffering_handlers c = hs \<Longrightarrow> buffering_handlers (remove_handlers hs c) = []"
proof (induction hs arbitrary: c)
  case Nil
  then show ?case by simp
next
  case (Cons x hs)
  obtain channel h where x: "x = (channel, h)" by (cases x)
  from Cons.prems have mem: "x \<in> set (filter is_buffer_handler (handlers c))"
    by (simp add: buffering_handlers_def)
  then have att: "x \<in> set (handlers c)" and buf: "is_buffer_handler x" by auto
  define c' where "c' = c\<lparr>handlers := remove1 x (handlers c)\<rparr>"
  from att x have rm: "remove_handler channel h c = Inr c'"
    by (simp add: remove_handler_def c'_def)
  from Cons.prems buf have "buffering_handlers c' = hs"
    by (simp add: buffering_handlers_def c'_def filter_remove1)
  then have "buffering_handlers (remove_handlers hs c') = []" by (rule Cons.IH)
  with x rm show ?case by simp
qed

lemma remove_handlers_flags:
  "closed (remove_handlers hs c) = closed c
   \<and> shutdown_requested (remove_handlers hs c) = shutdown_requested c"
  by (induction hs c rule: remove_handlers.induct)
     (auto simp: remove_handler_def split: sum.splits if_splits)

lemma start_buffering_unconnected:
  "client k = None \<Longrightarrow>
   fst (start_buffering session_key k) = Raised (AttributeError ''add_handler'')
   \<and> buffer_handlers (snd (start_buffering session_key k)) = buffer_handlers k"
  by (simp add: start_buffering_def buffer_channels_def register_buffer_handler_def Let_def)

lemma start_buffering_connected:
  assumes "client k = Some c"
  shows "\<exists>k'. start_buffering session_key k = (Returned (), k')
           \<and> buffer k' = buffer k
           \<and> buffer_for_key k' = Some session_key
           \<and> client k' =
               Some (c\<lparr>handlers := handlers c @
                          [(''shell'', BufferMsg (handler_seq k) ''shell''),
                           (''iopub'', BufferMsg (handler_seq k + 1) ''iopub''),
                           (''stdin'', BufferMsg (handler_seq k + 2) ''stdin'')]\<rparr>)
           \<and> buffer_handlers k' =
               AList.update ''stdin'' (BufferMsg (handler_seq k + 2) ''stdin'')
                 (AList.update ''iopub'' (BufferMsg (handler_seq k + 1) ''iopub'')
                    (AList.update ''shell'' (BufferMsg (handler_seq k) ''shell'')
                       (buffer_handlers k)))
           \<and> manager k' = manager k \<and> n_connections k' = n_connections k
           \<and> kernel_type k' = kernel_type k"
  using assms
  by (simp add: start_buffering_def buffer_channels_def register_buffer_handler_def
      add_handler_def Let_def)

text \<open>
  Claim C9 as stated fails for the session's own method: on a session that is buffering
  for \<^verbatim>\<open>key1\<close> and holds one message, \<^verbatim>\<open>start_buffering('key2')\<close> returns with
  the earlier message still in the buffer and the three earlier handlers still attached,
  next to the three new ones.
\<close>

theorem start_buffering_keeps_earlier_state:
  "buffer buffering_session = [(''shell'', stream_msg)]
   \<and> map_option buffering_handlers (client buffering_session) =
       Some [(''shell'', BufferMsg 0 ''shell''), (''iopub'', BufferMsg 1 ''iopub''),
             (''stdin'', BufferMsg 2 ''stdin'')]
   \<and> fst (start_buffering ''key2'' buffering_session) = Returned ()
   \<and> buffer_for_key (snd (start_buffering ''key2'' buffering_session)) = Some ''key2''
   \<and> buffer (snd (start_buffering ''key2'' buffering_session)) = [(''shell'', stream_msg)]
   \<and> map_option buffering_handlers (client (snd (start_buffering ''key2'' buffering_session))) =
       Some [(''shell'', BufferMsg 0 ''shell''), (''iopub'', BufferMsg 1 ''iopub''),
             (''stdin'', BufferMsg 2 ''stdin''), (''shell'', BufferMsg 3 ''shell''),
             (''iopub'', BufferMsg 4 ''iopub''), (''stdin'', BufferMsg 5 ''stdin'')]"
  by code_simp

section \<open>Shutting a session down\<close>

lemma stop_buffering_connected:
  assumes "client k = Some c"
  shows "\<exists>k' c'. stop_buffering k = (Returned (), k')
           \<and> buffer k' = [] \<and> buffer_handlers k' = [] \<and> buffer_for_key k' = None
           \<and> client k' = Some c' \<and> closed c' = closed c
           \<and> (buffering_handlers c = buffer_handlers k \<longrightarrow> buffering_handlers c' = [])
           \<and> manager k' = manager k"
  using assms
  by (cases "buffer_handlers k = []")
     (auto simp: stop_buffering_def clear_buffering_def remove_handlers_flags
        remove_handlers_recorded)

lemma shutdown_finish_connected:
  assumes "client k = Some c"
  shows "\<exists>k' c'. shutdown_finish k = (Returned (), k')
           \<and> buffer k' = [] \<and> buffer_handlers k' = [] \<and> buffer_for_key k' = None
           \<and> client k' = Some c' \<and> closed c'
           \<and> (buffering_handlers c = buffer_handlers k \<longrightarrow> buffering_handlers c' = [])
           \<and> cleaned_up (manager k') \<and> killed (manager k') = killed (manager k)"
proof -
  define k1 where
    "k1 = k\<lparr>client := Some (c\<lparr>closed := True\<rparr>), manager := (manager k)\<lparr>cleaned_up := True\<rparr>\<rparr>"
  have c1: "client k1 = Some (c\<lparr>closed := True\<rparr>)" by (simp add: k1_def)
  from stop_buffering_connected [OF c1] obtain k' c' where
    "stop_buffering k1 = (Returned (), k')"
    "buffer k' = []" "buffer_handlers k' = []" "buffer_for_key k' = None"
    "client k' = Some c'" "closed c' = closed (c\<lparr>closed := True\<rparr>)"
    "buffering_handlers (c\<lparr>closed := True\<rparr>) = buffer_handlers k1 \<longrightarrow> buffering_handlers c' = []"
    "manager k' = manager k1"
    by blast
  with assms show ?thesis
    by (simp add: shutdown_finish_def k1_def buffering_handlers_def)
qed

text \<open>
  Claim C7, as amended: on a connected session, \<open>shutdown\<close> closes the client,
  cleans up the process handle and stops buffering for both values of the flag whenever
  its termination step completes, that is with \<open>now\<close> set (the process is killed)
  or with a graceful request that resolves. A graceful request that fails makes
  \<open>shutdown\<close> raise that error, and one that does not resolve leaves it suspended;
  in both cases all that has happened to the session is the request itself.
\<close>

theorem shutdown_releases_when_request_completes:
  "(client k = Some c \<and> (now \<or> out = Resolves) \<longrightarrow>
      (\<exists>k' c'. shutdown now out k = (Returned (), k')
         \<and> client k' = Some c' \<and> closed c'
         \<and> cleaned_up (manager k')
         \<and> killed (manager k') = (now \<or> killed (manager k))
         \<and> buffer_handlers k' = [] \<and> buffer k' = [] \<and> buffer_for_key k' = None
         \<and> (buffering_consistent k \<longrightarrow> buffering_handlers c' = [])))
   \<and> (client k = Some c \<and> \<not> now \<and> out = Fails e \<longrightarrow>
        shutdown now out k = (Raised e, k\<lparr>client := Some (c\<lparr>shutdown_requested := True\<rparr>)\<rparr>))
   \<and> (client k = Some c \<and> \<not> now \<and> out = Pending \<longrightarrow>
        shutdown now out k = (Suspended, k\<lparr>client := Some (c\<lparr>shutdown_requested := True\<rparr>)\<rparr>))"
proof (intro conjI impI)
  assume a: "client k = Some c \<and> (now \<or> out = Resolves)"
  then have c: "client k = Some c" by simp
  show "\<exists>k' c'. shutdown now out k = (Returned (), k')
         \<and> client k' = Some c' \<and> closed c'
         \<and> cleaned_up (manager k')
         \<and> killed (manager k') = (now \<or> killed (manager k))
         \<and> buffer_handlers k' = [] \<and> buffer k' = [] \<and> buffer_for_key k' = None
         \<and> (buffering_consistent k \<longrightarrow> buffering_handlers c' = [])"
  proof (cases now)
    case True
    define k1 where "k1 = k\<lparr>manager := (manager k)\<lparr>killed := True\<rparr>\<rparr>"
    from c have c1: "client k1 = Some c" by (simp add: k1_def)
    from shutdown_finish_connected [OF c1] obtain k' c' where
      "shutdown_finish k1 = (Returned (), k')"
      "buffer k' = []" "buffer_handlers k' = []" "buffer_for_key k' = None"
      "client k' = Some c'" "closed c'"
      "buffering_handlers c = buffer_handlers k1 \<longrightarrow> buffering_handlers c' = []"
      "cleaned_up (manager k')" "killed (manager k') = killed (manager k1)"
      by blast
    with True c show ?thesis
      by (auto simp: shutdown_def shutdown_begin_def k1_def buffering_consistent_def)
  next
    case False
    with a have out: "out = Resolves" by simp
    define k1 where "k1 = k\<lparr>client := Some (c\<lparr>shutdown_requested := True\<rparr>)\<rparr>"
    have c1: "client k1 = Some (c\<lparr>shutdown_requested := True\<rparr>)" by (simp add: k1_def)
    from shutdown_finish_connected [OF c1] obtain k' c' where
      "shutdown_finish k1 = (Returned (), k')"
      "buffer k' = []" "buffer_handlers k' = []" "buffer_for_key k' = None"
      "client k' = Some c'" "closed c'"
      "buffering_handlers (c\<lparr>shutdown_requested := True\<rparr>) = buffer_handlers k1
         \<longrightarrow> buffering_handlers c' = []"
      "cleaned_up (manager k')" "killed (manager k') = killed (manager k1)"
      by blast
    with False out c show ?thesis
      by (auto simp: shutdown_def shutdown_begin_def shutdown_resume_def k1_def
          buffering_consistent_def buffering_handlers_def)
  qed
next
  assume "client k = Some c \<and> \<not> now \<and> out = Fails e"
  then show "shutdown now out k =
      (Raised e, k\<lparr>client := Some (c\<lparr>shutdown_requested := True\<rparr>)\<rparr>)"
    by (simp add: shutdown_def shutdown_begin_def shutdown_resume_def)
next
  assume "client k = Some c \<and> \<not> now \<and> out = Pending"
  then show "shutdown now out k =
      (Suspended, k\<lparr>client := Some (c\<lparr>shutdown_requested := True\<rparr>)\<rparr>)"
    by (simp add: shutdown_def shutdown_begin_def shutdown_resume_def)
qed

text \<open>
  Claim C7 as stated fails on the path it names: when the graceful-shutdown request of a
  buffering session fails, \<open>shutdown\<close> raises, the client is not closed, the process
  handle is not cleaned up, and the owner key and the three buffering handlers are still
  in place.
\<close>

theorem failed_shutdown_request_releases_nothing:
  "fst (shutdown False (Fails (CollaboratorError ''shutdown request failed'')) buffering_session)
     = Raised (CollaboratorError ''shutdown request failed'')
   \<and> map_option closed
        (client (snd (shutdown False (Fails (CollaboratorError ''shutdown request failed''))
                        buffering_session))) = Some False
   \<and> \<not> cleaned_up
        (manager (snd (shutdown False (Fails (CollaboratorError ''shutdown request failed''))
                         buffering_session)))
   \<and> buffer_for_key
        (snd (shutdown False (Fails (CollaboratorError ''shutdown request failed''))
                buffering_session)) = Some ''key1''
   \<and> map_option buffering_handlers
        (client (snd (shutdown False (Fails (CollaboratorError ''shutdown request failed''))
                        buffering_session))) =
       Some [(''shell'', BufferMsg 0 ''shell''), (''iopub'', BufferMsg 1 ''iopub''),
             (''stdin'', BufferMsg 2 ''stdin'')]"
  by code_simp

theorem shutdown_releases_when_request_completes_witness:
  "(\<exists>k' c'. shutdown False Resolves buffering_session = (Returned (), k')
         \<and> client k' = Some c' \<and> closed c' \<and> cleaned_up (manager k')
         \<and> \<not> killed (manager k')
         \<and> buffer_handlers k' = [] \<and> buffer k' = [] \<and> buffer_for_key k' = None
         \<and> buffering_handlers c' = [])
   \<and> (\<exists>k' c'. shutdown True Pending buffering_session = (Returned (), k')
         \<and> client k' = Some c' \<and> closed c' \<and> cleaned_up (manager k')
         \<and> killed (manager k')
         \<and> buffer_handlers k' = [] \<and> buffer k' = [] \<and> buffer_for_key k' = None
         \<and> buffering_handlers c' = [])
   \<and> fst (shutdown False (Fails ValueError) buffering_session) = Raised ValueError
   \<and> fst (shutdown False Pending buffering_session) = Suspended"
proof -
  have "client buffering_session \<noteq> None" by code_simp
  then obtain c where c: "client buffering_session = Some c" by auto
  have co: "buffering_consistent buffering_session" by code_simp
  have nk: "\<not> killed (manager buffering_session)" by code_simp
  from shutdown_releases_when_request_completes [of buffering_session c False Resolves] c co nk
  have 1: "\<exists>k' c'. shutdown False Resolves buffering_session = (Returned (), k')
         \<and> client k' = Some c' \<and> closed c' \<and> cleaned_up (manager k')
         \<and> \<not> killed (manager k')
         \<and> buffer_handlers k' = [] \<and> buffer k' = [] \<and> buffer_for_key k' = None
         \<and> buffering_handlers c' = []"
    by auto
  from shutdown_releases_when_request_completes [of buffering_session c True Pending] c co
  have 2: "\<exists>k' c'. shutdown True Pending buffering_session = (Returned (), k')
         \<and> client k' = Some c' \<and> closed c' \<and> cleaned_up (manager k')
         \<and> killed (manager k')
         \<and> buffer_handlers k' = [] \<and> buffer k' = [] \<and> buffer_for_key k' = None
         \<and> buffering_handlers c' = []"
    by auto
  from shutdown_releases_when_request_completes
         [of buffering_session c False "Fails ValueError" ValueError] c
  have 3: "fst (shutdown False (Fails ValueError) buffering_session) = Raised ValueError"
    by simp
  from shutdown_releases_when_request_completes [of buffering_session c False Pending] c
  have 4: "fst (shutdown False Pending buffering_session) = Suspended"
    by simp
  from 1 2 3 4 show ?thesis by blast
qed

section \<open>Unexpected death\<close>

lemma gauge_inc: "gauge (inc l m) l' = (if l' = l then gauge m l + 1 else gauge m l')"
  by (simp add: gauge_def inc_def update_conv')

lemma gauge_dec: "gauge (dec l m) l' = (if l' = l then gauge m l - 1 else gauge m l')"
  by (simp add: gauge_def dec_def update_conv')

lemma filter_delete_length:
  "distinct (map fst al) \<Longrightarrow> map_of al k = Some v \<Longrightarrow>
   length (filter P al) =
     length (filter P (AList.delete k al)) + (if P (k, v) then 1 else 0)"
proof (induction al)
  case Nil
  then show ?case by simp
next
  case (Cons x al)
  obtain k' v' where x: "x = (k', v')" by (cases x)
  show ?case
  proof (cases "k' = k")
    case True
    with Cons.prems x have "v' = v" and "k \<notin> fst ` set al" by auto
    with True x show ?thesis by (simp add: delete_id)
  next
    case False
    with Cons x show ?thesis by (simp add: AList.delete_eq)
  qed
qed

text \<open>
  Claim C10, as amended: when the \<^verbatim>\<open>dead\<close> callback runs for a registered,
  connected session, the entry leaves the registry, the client is closed, the process
  handle is cleaned up, and the gauge of the session's kernel type goes up by one while
  the number of live sessions of that type goes down by one; the gauge's excess over the
  live sessions of that type is therefore two more than before.
\<close>

theorem death_handler_removes_and_increments:
  "distinct (map fst (kernels m)) \<and> map_of (kernels m) kernel_id = Some kern
     \<and> client kern = Some c \<longrightarrow>
   (\<exists>k' m'. handle_kernel_died kernel_id m = (Returned k', m')
      \<and> \<not> contains m' kernel_id
      \<and> client k' = Some (c\<lparr>closed := True\<rparr>)
      \<and> cleaned_up (manager k')
      \<and> gauge m' (kernel_type kern) = gauge m (kernel_type kern) + 1
      \<and> live_sessions m' (kernel_type kern) = live_sessions m (kernel_type kern) - 1
      \<and> gauge m' (kernel_type kern) - live_sessions m' (kernel_type kern) =
          gauge m (kernel_type kern) - live_sessions m (kernel_type kern) + 2)"
proof
  assume a: "distinct (map fst (kernels m)) \<and> map_of (kernels m) kernel_id = Some kern
     \<and> client kern = Some c"
  define k' where "k' = kern\<lparr>client := Some (c\<lparr>closed := True\<rparr>),
                         manager := (manager kern)\<lparr>cleaned_up := True\<rparr>\<rparr>"
  define m1 where "m1 = m\<lparr>kernels := AList.delete kernel_id (kernels m)\<rparr>"
  define m' where "m' = inc (kernel_type kern) m1"
  from a have res: "handle_kernel_died kernel_id m = (Returned k', m')"
    by (simp add: handle_kernel_died_def k'_def m'_def m1_def)
  have gone: "\<not> contains m' kernel_id"
    by (simp add: m'_def m1_def)
  have g: "gauge m' (kernel_type kern) = gauge m (kernel_type kern) + 1"
    by (simp add: m'_def gauge_inc) (simp add: m1_def gauge_def)
  from a have "length (filter (\<lambda>entry. kernel_type (snd entry) = kernel_type kern) (kernels m)) =
     length (filter (\<lambda>entry. kernel_type (snd entry) = kernel_type kern)
               (AList.delete kernel_id (kernels m))) + 1"
    using filter_delete_length
      [of "kernels m" kernel_id kern "\<lambda>entry. kernel_type (snd entry) = kernel_type kern"]
    by simp
  then have l: "live_sessions m' (kernel_type kern) = live_sessions m (kernel_type kern) - 1"
    by (simp add: live_sessions_def m'_def m1_def inc_def)
  from res gone g l show "\<exists>k' m'. handle_kernel_died kernel_id m = (Returned k', m')
      \<and> \<not> contains m' kernel_id
      \<and> client k' = Some (c\<lparr>closed := True\<rparr>)
      \<and> cleaned_up (manager k')
      \<and> gauge m' (kernel_type kern) = gauge m (kernel_type kern) + 1
      \<and> live_sessions m' (kernel_type kern) = live_sessions m (kernel_type kern) - 1
      \<and> gauge m' (kernel_type kern) - live_sessions m' (kernel_type kern) =
          gauge m (kernel_type kern) - live_sessions m (kernel_type kern) + 2"
    by (intro exI [of _ k'] exI [of _ m']) (simp add: k'_def)
qed

text \<open>
  Claim C10 as stated fails in its last clause: with one session started, gauge and live
  sessions agree (excess 0); after its death the gauge stands at 2 and no session is live
  (excess 2), which is two more than before, not one.
\<close>

theorem death_widens_gap_by_two:
  "gauge (one_session ''idle'') ''pyimport/kernel''
     - live_sessions (one_session ''idle'') ''pyimport/kernel'' = 0
   \<and> gauge (snd (handle_kernel_died ''k1'' (one_session ''idle''))) ''pyimport/kernel''
     - live_sessions (snd (handle_kernel_died ''k1'' (one_session ''idle''))) ''pyimport/kernel''
     = 2"
  by code_simp

theorem death_handler_removes_and_increments_witness:
  "distinct (map fst (kernels (one_session ''idle'')))
   \<and> map_of (kernels (one_session ''idle'')) ''k1'' = Some (session_k1 ''idle'')
   \<and> kernel_type (session_k1 ''idle'') = ''pyimport/kernel''
   \<and> gauge (one_session ''idle'') ''pyimport/kernel'' = 1
   \<and> live_sessions (one_session ''idle'') ''pyimport/kernel'' = 1
   \<and> (\<exists>k' m'. handle_kernel_died ''k1'' (one_session ''idle'') = (Returned k', m')
         \<and> \<not> contains m' ''k1''
         \<and> map_option closed (client k') = Some True
         \<and> cleaned_up (manager k')
         \<and> gauge m' ''pyimport/kernel'' = 2
         \<and> live_sessions m' ''pyimport/kernel'' = 0)"
proof -
  have d: "distinct (map fst (kernels (one_session ''idle'')))" by code_simp
  have kt: "kernel_type (session_k1 ''idle'') = ''pyimport/kernel''" by code_simp
  have g: "gauge (one_session ''idle'') ''pyimport/kernel'' = 1" by code_simp
  have l: "live_sessions (one_session ''idle'') ''pyimport/kernel'' = 1" by code_simp
  have "client (session_k1 ''idle'') \<noteq> None" by code_simp
  then obtain c where c: "client (session_k1 ''idle'') = Some c" by auto
  from death_handler_removes_and_increments
         [of "one_session ''idle''" "''k1''" "session_k1 ''idle''" c]
       d one_session_k1 c
  obtain k' m' where
    "handle_kernel_died ''k1'' (one_session ''idle'') = (Returned k', m')"
    "\<not> contains m' ''k1''" "client k' = Some (c\<lparr>closed := True\<rparr>)" "cleaned_up (manager k')"
    "gauge m' (kernel_type (session_k1 ''idle'')) =
       gauge (one_session ''idle'') (kernel_type (session_k1 ''idle'')) + 1"
    "live_sessions m' (kernel_type (session_k1 ''idle'')) =
       live_sessions (one_session ''idle'') (kernel_type (session_k1 ''idle'')) - 1"
    by blast
  with kt g l have "\<exists>k' m'. handle_kernel_died ''k1'' (one_session ''idle'') = (Returned k', m')
         \<and> \<not> contains m' ''k1''
         \<and> map_option closed (client k') = Some True
         \<and> cleaned_up (manager k')
         \<and> gauge m' ''pyimport/kernel'' = 2
         \<and> live_sessions m' ''pyimport/kernel'' = 0"
    by auto
  with d one_session_k1 kt g l show ?thesis by blast
qed

section \<open>The listed sessions\<close>

lemma ids_update:
  "set (map fst (AList.update k v al)) = insert k (set (map fst al))"
  by (simp add: dom_update)

lemma ids_delete:
  "set (map fst (AList.delete k al)) = set (map fst al) - {k}"
  by (simp add: delete_keys)

lemma kernels_initialize_culler [simp]: "kernels (initialize_culler m) = kernels m"
  by (simp add: initialize_culler_def Let_def)

lemma kernels_inc [simp]: "kernels (inc l m) = kernels m"
  by (simp add: inc_def)

lemma kernels_dec [simp]: "kernels (dec l m) = kernels m"
  by (simp add: dec_def)

lemma start_kernel_internal_kernels:
  "kernels (snd (start_kernel_internal now launch ready kernel_id kt m)) =
     (if launch = None \<and> ready = Resolves
      then AList.update kernel_id
             (KernelInterface_init now kt
                \<lparr>client := Some (add_handler ''iopub'' (RecordActivity kernel_id) new_client)\<rparr>)
             (kernels m)
      else kernels m)"
  by (cases launch; cases ready)
     (simp_all add: start_kernel_internal_def connect_client_def KernelInterface_init_def
        start_watching_activity_def)

lemma start_kernel_fresh_kernels:
  "kernels (snd (start_kernel now new_id launch ready None kernel_name m)) =
     kernels (snd (start_kernel_internal now launch ready new_id
                     (resolve_kernel_name kernel_name) m))"
proof -
  obtain r m1 where st: "start_kernel_internal now launch ready new_id
                     (resolve_kernel_name kernel_name) m = (r, m1)"
    by (cases "start_kernel_internal now launch ready new_id
                     (resolve_kernel_name kernel_name) m")
  then show ?thesis
    by (cases r) (simp_all add: start_kernel_def split: option.splits)
qed

lemma start_kernel_existing_kernels:
  "kernels (snd (start_kernel now new_id launch ready (Some kernel_id) kernel_name m)) =
     kernels m"
  by (simp add: start_kernel_def split: sum.splits)

lemma shutdown_kernel_kernels:
  "kernels (snd (shutdown_kernel now out kernel_id immediate m)) =
     AList.delete kernel_id (kernels m)"
proof (cases "map_of (kernels m) kernel_id")
  case None
  then have "kernel_id \<notin> fst ` set (kernels m)" by (simp add: map_of_eq_None_iff)
  with None show ?thesis
    by (simp add: shutdown_kernel_def shutdown_kernel_begin_def check_kernel_id_def
        contains_def delete_id)
next
  case (Some kern)
  then show ?thesis
    by (simp add: shutdown_kernel_def shutdown_kernel_begin_def check_kernel_id_def
        contains_def shutdown_kernel_resume_registry split: prod.splits)
qed

lemma handle_kernel_died_kernels:
  "kernels (snd (handle_kernel_died kernel_id m)) = AList.delete kernel_id (kernels m)"
proof (cases "map_of (kernels m) kernel_id")
  case None
  then have "kernel_id \<notin> fst ` set (kernels m)" by (simp add: map_of_eq_None_iff)
  with None show ?thesis by (simp add: handle_kernel_died_def delete_id)
next
  case (Some kern)
  then show ?thesis by (simp add: handle_kernel_died_def Let_def split: option.splits)
qed

lemma notify_keys: "map fst (kernels (notify n m)) = map fst (kernels m)"
proof -
  have "\<And>kid f. map_of (kernels m) kid = Some kern \<Longrightarrow>
          map fst (AList.update kid (f kern) (kernels m)) = map fst (kernels m)" for kern
    by (simp add: update_keys map_of_eq_None_iff [symmetric] del: map_of_eq_None_iff)
  then show ?thesis
    by (cases n) (auto simp: notify_connect_def notify_disconnect_def split: option.splits)
qed

lemma restart_kernel_keys:
  "map fst (kernels (snd (restart_kernel now Resolves None Resolves kernel_id m))) =
     map fst (kernels m)"
proof (cases "map_of (kernels m) kernel_id")
  case None
  then show ?thesis
    by (simp add: restart_kernel_def restart_kernel_shutdown_def check_kernel_id_def
        contains_def)
next
  case (Some kern)
  then have mem: "kernel_id \<in> set (map fst (kernels m))"
    by (metis map_of_eq_None_iff option.distinct(1) set_map)
  obtain r k1 where sd: "shutdown False Resolves kern = (r, k1)"
    by (cases "shutdown False Resolves kern")
  define m1 where "m1 = m\<lparr>kernels := AList.update kernel_id k1 (kernels m)\<rparr>"
  from mem have keys1: "map fst (kernels m1) = map fst (kernels m)"
    by (simp add: m1_def update_keys)
  show ?thesis
  proof (cases r)
    case (Returned u)
    with Some sd have "restart_kernel_shutdown Resolves kernel_id m = (Returned k1, m1)"
      by (simp add: restart_kernel_shutdown_def check_kernel_id_def contains_def get_kernel_def
          m1_def)
    moreover
    obtain r2 m2 where st:
      "start_kernel_internal now None Resolves kernel_id (kernel_type k1) m1 = (r2, m2)"
      by (cases "start_kernel_internal now None Resolves kernel_id (kernel_type k1) m1")
    moreover
    from st have "kernels m2 = kernels (snd (start_kernel_internal now None Resolves kernel_id (kernel_type k1) m1))"
      by simp
    with mem keys1 have "map fst (kernels m2) = map fst (kernels m)"
      by (simp add: start_kernel_internal_kernels update_keys)
    ultimately show ?thesis
      by (cases r2) (simp_all add: restart_kernel_def split: error.splits)
  next
    case (Raised e)
    with Some sd keys1 show ?thesis
      by (simp add: restart_kernel_def restart_kernel_shutdown_def check_kernel_id_def
          contains_def get_kernel_def m1_def)
  next
    case Suspended
    with Some sd keys1 show ?thesis
      by (simp add: restart_kernel_def restart_kernel_shutdown_def check_kernel_id_def
          contains_def get_kernel_def m1_def)
  qed
qed

lemma apply_operation_ids:
  "set (list_kernel_ids (apply_operation op m)) = started_not_ended (set (list_kernel_ids m)) op"
proof (cases op)
  case (StartSession now new_id launch ready kernel_id kernel_name)
  then show ?thesis
    by (cases kernel_id)
       (simp_all add: list_kernel_ids_def start_kernel_fresh_kernels
          start_kernel_existing_kernels start_kernel_internal_kernels dom_update)
next
  case (StopSession now out kernel_id immediate)
  then show ?thesis
    using ids_delete [of kernel_id "kernels m"]
    by (simp add: list_kernel_ids_def shutdown_kernel_kernels)
next
  case (SessionDied kernel_id)
  then show ?thesis
    using ids_delete [of kernel_id "kernels m"]
    by (simp add: list_kernel_ids_def handle_kernel_died_kernels)
next
  case (Notification n)
  then show ?thesis by (simp add: list_kernel_ids_def notify_keys)
next
  case (RestartSession now kernel_id)
  then show ?thesis by (simp add: list_kernel_ids_def restart_kernel_keys)
qed

lemma apply_operation_distinct:
  "distinct (list_kernel_ids m) \<Longrightarrow> distinct (list_kernel_ids (apply_operation op m))"
proof (cases op)
  case (StartSession now new_id launch ready kernel_id kernel_name)
  assume "distinct (list_kernel_ids m)"
  with StartSession show ?thesis
    by (cases kernel_id)
       (simp_all add: list_kernel_ids_def start_kernel_fresh_kernels
          start_kernel_existing_kernels start_kernel_internal_kernels distinct_update)
next
  case (StopSession now out kernel_id immediate)
  assume "distinct (list_kernel_ids m)"
  with StopSession show ?thesis
    by (simp add: list_kernel_ids_def shutdown_kernel_kernels distinct_delete)
next
  case (SessionDied kernel_id)
  assume "distinct (list_kernel_ids m)"
  with SessionDied show ?thesis
    by (simp add: list_kernel_ids_def handle_kernel_died_kernels distinct_delete)
next
  case (Notification n)
  assume "distinct (list_kernel_ids m)"
  with Notification show ?thesis by (simp add: list_kernel_ids_def notify_keys)
next
  case (RestartSession now kernel_id)
  assume "distinct (list_kernel_ids m)"
  with RestartSession show ?thesis by (simp add: list_kernel_ids_def restart_kernel_keys)
qed

lemma apply_operations_ids:
  "set (list_kernel_ids (apply_operations ops m)) =
     foldl started_not_ended (set (list_kernel_ids m)) ops"
  by (induction ops arbitrary: m) (simp_all add: apply_operation_ids)

lemma apply_operations_distinct:
  "distinct (list_kernel_ids m) \<Longrightarrow> distinct (list_kernel_ids (apply_operations ops m))"
  by (induction ops arbitrary: m) (simp_all add: apply_operation_distinct)

lemma collect_models_registered:
  "\<forall>kid \<in> set ids. contains m kid \<Longrightarrow>
   \<exists>models. collect_models m ids = Inr models \<and> map model_id models = ids"
proof (induction ids)
  case Nil
  show ?case by simp
next
  case (Cons kid ids)
  then obtain models where "collect_models m ids = Inr models" "map model_id models = ids"
    by auto
  moreover from Cons.prems obtain kern where "map_of (kernels m) kid = Some kern"
    by (auto simp: contains_def)
  ultimately show ?case
    by (simp add: kernel_model_def check_kernel_id_def contains_def)
qed

lemma list_kernels_ids:
  "\<exists>models. list_kernels m = Inr models \<and> map model_id models = list_kernel_ids m"
  unfolding list_kernels_def list_kernel_ids_def
  by (rule collect_models_registered) (simp add: contains_def map_of_eq_None_iff)

text \<open>
  The paths that remove an entry keep the listing exact: after any sequence of starts,
  stops, deaths, connection notifications and completed restarts, \<open>list_kernels\<close>
  returns models for exactly the identifiers that were registered or started and have not
  since been stopped or died, and a stop or a death of an identifier always leaves that
  identifier out of the registry.
\<close>

lemma listed_after_starts_stops_deaths:
  "(\<exists>models. list_kernels (apply_operations ops m) = Inr models
       \<and> set (map model_id models) = foldl started_not_ended (set (list_kernel_ids m)) ops
       \<and> (distinct (list_kernel_ids m) \<longrightarrow> distinct (map model_id models)))
   \<and> (\<forall>now out kernel_id immediate.
        \<not> contains (snd (shutdown_kernel now out kernel_id immediate m)) kernel_id)
   \<and> (\<forall>kernel_id. \<not> contains (snd (handle_kernel_died kernel_id m)) kernel_id)"
proof (intro conjI allI)
  from list_kernels_ids [of "apply_operations ops m"] obtain models where
    lk: "list_kernels (apply_operations ops m) = Inr models"
    and ids: "map model_id models = list_kernel_ids (apply_operations ops m)"
    by blast
  have "set (map model_id models) = foldl started_not_ended (set (list_kernel_ids m)) ops"
    unfolding ids by (rule apply_operations_ids)
  moreover have "distinct (list_kernel_ids m) \<longrightarrow> distinct (map model_id models)"
    unfolding ids by (simp add: apply_operations_distinct)
  ultimately show "\<exists>models. list_kernels (apply_operations ops m) = Inr models
       \<and> set (map model_id models) = foldl started_not_ended (set (list_kernel_ids m)) ops
       \<and> (distinct (list_kernel_ids m) \<longrightarrow> distinct (map model_id models))"
    using lk by blast
next
  fix now out kernel_id immediate
  show "\<not> contains (snd (shutdown_kernel now out kernel_id immediate m)) kernel_id"
    by (simp add: contains_def shutdown_kernel_kernels delete_conv')
next
  fix kernel_id
  show "\<not> contains (snd (handle_kernel_died kernel_id m)) kernel_id"
    by (simp add: contains_def handle_kernel_died_kernels delete_conv')
qed


text \<open>
  \<^verbatim>\<open>restart_kernel\<close> shuts the old session down in place: when its
  \<^verbatim>\<open>shutdown()\<close> has run to its end and the replacement is awaited, the
  identifier is still bound, to the session that has just been shut down, and
  \<open>list_kernels\<close> returns a model for it.
\<close>

lemma restart_shuts_down_in_place:
  "(case map_of (kernels (one_session ''idle'')) ''k1'' of
      None \<Rightarrow> False | Some k \<Rightarrow> \<not> shut_down k)
   \<and> (case restart_kernel_shutdown Resolves ''k1'' (one_session ''idle'') of
        (Returned k1, m1) \<Rightarrow>
          shut_down k1 \<and> map_of (kernels m1) ''k1'' = Some k1 \<and> contains m1 ''k1''
          \<and> list_kernels m1 =
               Inr [\<lparr>model_id = ''k1'', model_name = ''pyimport/kernel'',
                     model_last_activity = Some 0, model_execution_state = ''idle'',
                     model_connections = 0\<rparr>]
      | (Raised e, m1) \<Rightarrow> False
      | (Suspended, m1) \<Rightarrow> False)"
  by code_simp

lemma listed_after_sample_operations:
  "distinct (list_kernel_ids (MappingKernelManager_init 0))
   \<and> (\<exists>models. list_kernels (apply_operations sample_operations (MappingKernelManager_init 0))
                  = Inr models
         \<and> set (map model_id models) = {''d''}
         \<and> distinct (map model_id models))
   \<and> list_kernel_ids (apply_operations sample_operations (MappingKernelManager_init 0)) = [''d'']"
proof -
  have d: "distinct (list_kernel_ids (MappingKernelManager_init 0))"
    by (simp add: list_kernel_ids_def MappingKernelManager_init_def)
  have e: "list_kernel_ids (MappingKernelManager_init 0) = []"
    by (simp add: list_kernel_ids_def MappingKernelManager_init_def)
  have f: "foldl started_not_ended {} sample_operations = {''d''}"
    by (auto simp: sample_operations_def)
  have g: "list_kernel_ids (apply_operations sample_operations (MappingKernelManager_init 0)) = [''d'']"
    by code_simp
  from listed_after_starts_stops_deaths
         [of sample_operations "MappingKernelManager_init 0"] d e f
  have "\<exists>models. list_kernels (apply_operations sample_operations (MappingKernelManager_init 0))
                  = Inr models
         \<and> set (map model_id models) = {''d''}
         \<and> distinct (map model_id models)"
    by auto
  with d g show ?thesis by blast
qed

section \<open>Buffering in every state of a session object\<close>

lemma remove1_as_filter:
  "distinct (filter P xs) \<Longrightarrow> P x \<Longrightarrow> remove1 x xs = filter (\<lambda>y. y \<noteq> x) xs"
proof (induction xs)
  case Nil
  show ?case by simp
next
  case (Cons y ys)
  show ?case
  proof (cases "y = x")
    case True
    with Cons.prems have "x \<notin> set ys" by auto
    then have "filter (\<lambda>y. y \<noteq> x) ys = ys" by (auto simp: filter_id_conv)
    with True show ?thesis by simp
  next
    case False
    from Cons.prems have "distinct (filter P ys)" by (cases "P y") simp_all
    with Cons False show ?thesis by simp
  qed
qed

lemma remove_handler_as_filter:
  assumes "distinct (buffering_handlers c)" and "is_buffer_handler (channel, h)"
  shows "(case remove_handler channel h c of Inl e \<Rightarrow> c | Inr c' \<Rightarrow> c') =
           c\<lparr>handlers := filter (\<lambda>y. y \<noteq> (channel, h)) (handlers c)\<rparr>"
proof (cases "(channel, h) \<in> set (handlers c)")
  case True
  with assms show ?thesis
    by (simp add: remove_handler_def buffering_handlers_def remove1_as_filter)
next
  case False
  then have "filter (\<lambda>y. y \<noteq> (channel, h)) (handlers c) = handlers c"
    by (auto simp: filter_id_conv)
  with False show ?thesis by (simp add: remove_handler_def)
qed

lemma remove_handlers_as_filter:
  "distinct (buffering_handlers c) \<Longrightarrow> \<forall>x \<in> set hs. is_buffer_handler x \<Longrightarrow>
   remove_handlers hs c = c\<lparr>handlers := filter (\<lambda>x. x \<notin> set hs) (handlers c)\<rparr>"
proof (induction hs arbitrary: c)
  case Nil
  show ?case by simp
next
  case (Cons x hs)
  obtain channel h where x: "x = (channel, h)" by (cases x)
  define c1 where "c1 = c\<lparr>handlers := filter (\<lambda>y. y \<noteq> x) (handlers c)\<rparr>"
  from Cons.prems x have step:
    "(case remove_handler channel h c of Inl e \<Rightarrow> c | Inr c' \<Rightarrow> c') = c1"
    by (simp add: remove_handler_as_filter c1_def)
  have "filter is_buffer_handler (filter (\<lambda>y. y \<noteq> x) (handlers c)) =
          filter (\<lambda>y. y \<noteq> x) (filter is_buffer_handler (handlers c))"
    by (auto intro: filter_cong)
  with Cons.prems(1) have d1: "distinct (buffering_handlers c1)"
    by (simp add: buffering_handlers_def c1_def del: filter_filter)
  from Cons.prems(2) have "\<forall>x \<in> set hs. is_buffer_handler x" by simp
  with d1 have "remove_handlers hs c1 =
      c1\<lparr>handlers := filter (\<lambda>x. x \<notin> set hs) (handlers c1)\<rparr>"
    by (rule Cons.IH)
  moreover have "filter (\<lambda>y. y \<notin> set hs) (filter (\<lambda>y. y \<noteq> x) (handlers c)) =
      filter (\<lambda>y. y \<notin> set (x # hs)) (handlers c)"
    by (auto intro: filter_cong)
  ultimately show ?case using x step by (simp add: c1_def)
qed


lemma stop_buffering_wf:
  assumes "buffering_wf k"
  shows "fst (stop_buffering k) = Returned ()
         \<and> buffer (snd (stop_buffering k)) = []
         \<and> buffer_handlers (snd (stop_buffering k)) = []
         \<and> buffer_for_key (snd (stop_buffering k)) = None
         \<and> handler_seq (snd (stop_buffering k)) = handler_seq k
         \<and> client (snd (stop_buffering k)) =
             map_option
               (\<lambda>c. c\<lparr>handlers := filter (\<lambda>x. x \<notin> set (buffer_handlers k)) (handlers c)\<rparr>)
               (client k)"
proof (cases "client k")
  case None
  with assms have "buffer_handlers k = []" by (simp add: buffering_wf_def)
  with None show ?thesis by (simp add: stop_buffering_def clear_buffering_def)
next
  case (Some c)
  with assms have "distinct (buffering_handlers c)"
    and "\<forall>x \<in> set (buffer_handlers k). is_buffer_handler x"
    by (simp_all add: buffering_wf_def)
  then have "remove_handlers (buffer_handlers k) c =
      c\<lparr>handlers := filter (\<lambda>x. x \<notin> set (buffer_handlers k)) (handlers c)\<rparr>"
    by (rule remove_handlers_as_filter)
  with Some show ?thesis
    by (cases "buffer_handlers k = []") (simp_all add: stop_buffering_def clear_buffering_def)
qed

lemma buffering_handlers_filtered:
  "buffering_handlers (c\<lparr>handlers := filter Q (handlers c)\<rparr>) = filter Q (buffering_handlers c)"
  by (auto simp: buffering_handlers_def intro: filter_cong)

lemma buffering_wf_stop: "buffering_wf k \<Longrightarrow> buffering_wf (snd (stop_buffering k))"
proof -
  assume wf: "buffering_wf k"
  note sb = stop_buffering_wf [OF wf]
  show ?thesis
  proof (cases "client k")
    case None
    with sb show ?thesis by (simp add: buffering_wf_def)
  next
    case (Some c)
    with wf have "distinct (buffering_handlers c)"
      and "\<forall>x \<in> set (handlers c). handler_below (handler_seq k) x"
      by (simp_all add: buffering_wf_def)
    with Some sb show ?thesis
      by (simp add: buffering_wf_def buffering_handlers_filtered)
  qed
qed

lemma set_update_subset: "set (AList.update a v al) \<subseteq> insert (a, v) (set al)"
  by (induction al) auto

lemma register_buffer_handler_wf:
  assumes "buffering_wf k" and "client k = Some c"
  shows "fst (register_buffer_handler channel k) = Returned ()
         \<and> buffering_wf (snd (register_buffer_handler channel k))
         \<and> client (snd (register_buffer_handler channel k)) \<noteq> None"
proof -
  define n where "n = handler_seq k"
  define h where "h = BufferMsg n channel"
  from assms have old: "\<forall>x \<in> set (handlers c). handler_below n x"
    and dist: "distinct (buffering_handlers c)"
    and rec: "\<forall>x \<in> set (buffer_handlers k). is_buffer_handler x \<and> handler_below n x"
    by (simp_all add: buffering_wf_def n_def)
  from old have fresh: "(channel, h) \<notin> set (handlers c)"
    by (auto simp: h_def)
  have below: "handler_below n x \<Longrightarrow> handler_below (Suc n) x" for x
    by (cases x; cases "snd x") auto
  from set_update_subset [of channel h "buffer_handlers k"] rec
  have rec': "\<forall>x \<in> set (AList.update channel h (buffer_handlers k)).
                is_buffer_handler x \<and> handler_below (Suc n) x"
    by (auto simp: h_def below)
  from dist fresh have dist': "distinct (buffering_handlers (add_handler channel h c))"
    by (simp add: buffering_handlers_def add_handler_def h_def)
  from old have old': "\<forall>x \<in> set (handlers (add_handler channel h c)). handler_below (Suc n) x"
    by (auto simp: add_handler_def h_def below)
  have ne: "buffering_handlers (add_handler channel h c) \<noteq> []"
    by (simp add: buffering_handlers_def add_handler_def h_def)
  from assms(2) rec' dist' old' ne show ?thesis
    by (simp add: register_buffer_handler_def Let_def buffering_wf_def n_def h_def)
qed

lemma register_buffer_handlers_wf:
  "buffering_wf k \<Longrightarrow> client k \<noteq> None \<Longrightarrow>
   buffering_wf (snd (register_buffer_handlers channels k))"
proof (induction channels arbitrary: k)
  case Nil
  then show ?case by simp
next
  case (Cons channel rest)
  from Cons.prems obtain c where c: "client k = Some c" by auto
  from register_buffer_handler_wf [OF Cons.prems(1) c, of channel]
  obtain k1 where r: "register_buffer_handler channel k = (Returned (), k1)"
    and wf1: "buffering_wf k1" and c1: "client k1 \<noteq> None"
    by (cases "register_buffer_handler channel k") auto
  from wf1 c1 have "buffering_wf (snd (register_buffer_handlers rest k1))"
    by (rule Cons.IH)
  with r show ?case by simp
qed

lemma buffering_wf_start: "buffering_wf k \<Longrightarrow> buffering_wf (snd (start_buffering session_key k))"
proof (cases "client k")
  case None
  assume "buffering_wf k"
  with None show ?thesis
    by (simp add: start_buffering_def buffer_channels_def register_buffer_handler_def Let_def
        buffering_wf_def)
next
  case (Some c)
  assume "buffering_wf k"
  with Some have "buffering_wf (k\<lparr>buffer_for_key := Some session_key\<rparr>)"
    by (simp add: buffering_wf_def)
  moreover from Some have "client (k\<lparr>buffer_for_key := Some session_key\<rparr>) \<noteq> None" by simp
  ultimately show ?thesis
    unfolding start_buffering_def by (rule register_buffer_handlers_wf)
qed

lemma buffering_wf_get: "buffering_wf k \<Longrightarrow> buffering_wf (snd (get_buffer k))"
proof -
  assume "buffering_wf k"
  then have "buffering_wf (k\<lparr>buffer := []\<rparr>)"
    by (simp add: buffering_wf_def split: option.splits)
  then have "buffering_wf (snd (stop_buffering (k\<lparr>buffer := []\<rparr>)))"
    by (rule buffering_wf_stop)
  then show ?thesis
    by (cases "stop_buffering (k\<lparr>buffer := []\<rparr>)"; cases "fst (stop_buffering (k\<lparr>buffer := []\<rparr>))")
       (simp_all add: get_buffer_def)
qed

lemma buffering_wf_finish: "buffering_wf k \<Longrightarrow> buffering_wf (snd (shutdown_finish k))"
proof (cases "client k")
  case None
  assume "buffering_wf k"
  with None show ?thesis by (simp add: shutdown_finish_def)
next
  case (Some c)
  assume "buffering_wf k"
  with Some have "buffering_wf (k\<lparr>client := Some (c\<lparr>closed := True\<rparr>),
                                  manager := (manager k)\<lparr>cleaned_up := True\<rparr>\<rparr>)"
    by (simp add: buffering_wf_def buffering_handlers_def)
  then have "buffering_wf (snd (stop_buffering (k\<lparr>client := Some (c\<lparr>closed := True\<rparr>),
                                  manager := (manager k)\<lparr>cleaned_up := True\<rparr>\<rparr>)))"
    by (rule buffering_wf_stop)
  with Some show ?thesis by (simp add: shutdown_finish_def)
qed

lemma session_state_wf: "session_state k \<Longrightarrow> buffering_wf k"
proof (induction rule: session_state.induct)
  case (created now kt)
  show ?case by (simp add: buffering_wf_def KernelInterface_init_def)
next
  case (connected k ready)
  then show ?case
    by (cases ready)
       (auto simp: connect_client_def buffering_wf_def new_client_def buffering_handlers_def
          split: option.splits)
next
  case (watched k kernel_id)
  then show ?case
    by (auto simp: start_watching_activity_def buffering_wf_def add_handler_def
        buffering_handlers_def split: option.splits)
next
  case (stopped_buffering k)
  then show ?case by (simp add: buffering_wf_stop)
next
  case (started_buffering k session_key)
  then show ?case by (simp add: buffering_wf_start)
next
  case (took_buffer k)
  then show ?case by (simp add: buffering_wf_get)
next
  case (handler_called k c channel h msg)
  show ?case
  proof (cases h)
    case (BufferMsg i ch)
    with handler_called have "(channel, h) \<in> set (buffering_handlers c)"
      by (simp add: buffering_handlers_def)
    then have "buffering_handlers c \<noteq> []" by auto
    with handler_called BufferMsg show ?thesis
      by (simp add: buffering_wf_def buffer_msg_def)
  next
    case (RecordActivity kid)
    with handler_called show ?thesis by simp
  qed
next
  case (counted k n)
  then show ?case by (simp add: buffering_wf_def split: option.splits)
next
  case (activity k now msg m)
  then show ?case by (simp add: buffering_wf_def record_activity_def Let_def split: option.splits)
next
  case (shutdown_begun k immediate)
  show ?case
  proof (cases immediate)
    case True
    from shutdown_begun have "buffering_wf (k\<lparr>manager := (manager k)\<lparr>killed := True\<rparr>\<rparr>)"
      by (simp add: buffering_wf_def split: option.splits)
    then have "buffering_wf (snd (shutdown_finish (k\<lparr>manager := (manager k)\<lparr>killed := True\<rparr>\<rparr>)))"
      by (rule buffering_wf_finish)
    with True show ?thesis by (simp add: shutdown_begin_def)
  next
    case False
    with shutdown_begun show ?thesis
      by (auto simp: shutdown_begin_def buffering_wf_def buffering_handlers_def
          split: option.splits)
  qed
next
  case (shutdown_resumed k out)
  then show ?case by (cases out) (simp_all add: shutdown_resume_def buffering_wf_finish)
next
  case (interrupted k)
  then show ?case by (simp add: buffering_wf_def interrupt_def split: option.splits)
next
  case (restarted k new_manager ready)
  then show ?case
    by (cases ready)
       (auto simp: handle_kernel_restarted_def connect_client_def buffering_wf_def
          new_client_def buffering_handlers_def split: option.splits)
next
  case (died k c)
  then show ?case by (simp add: buffering_wf_def buffering_handlers_def)
qed

lemma get_buffer_wf:
  assumes "buffering_wf k"
  shows "get_buffer k = (Returned (buffer k, buffer_for_key k), snd (get_buffer k))
         \<and> buffer (snd (get_buffer k)) = []
         \<and> buffer_handlers (snd (get_buffer k)) = []
         \<and> buffer_for_key (snd (get_buffer k)) = None
         \<and> client (snd (get_buffer k)) =
             map_option
               (\<lambda>c. c\<lparr>handlers := filter (\<lambda>x. x \<notin> set (buffer_handlers k)) (handlers c)\<rparr>)
               (client k)"
proof -
  from assms have "buffering_wf (k\<lparr>buffer := []\<rparr>)"
    by (simp add: buffering_wf_def split: option.splits)
  from stop_buffering_wf [OF this] show ?thesis
    by (cases "stop_buffering (k\<lparr>buffer := []\<rparr>)") (simp add: get_buffer_def)
qed

text \<open>
  Claim C8, as amended: in every state of a session object, \<open>get_buffer\<close> returns
  the buffer as it stands together with the owner key, and leaves the buffer empty, no
  recorded handler and no owner key; on the client it removes exactly the recorded
  handlers (those of the latest \<^verbatim>\<open>start_buffering\<close>) and leaves every other
  handler attached, so that no buffering handler remains when the attached ones were all
  recorded. When no buffering handler is attached the buffer is empty, and when in
  addition no owner key is recorded what is returned is the empty buffer and no key.
\<close>

theorem get_buffer_returns_and_detaches_recorded:
  "session_state k \<longrightarrow>
     (\<exists>k'. get_buffer k = (Returned (buffer k, buffer_for_key k), k')
        \<and> buffer k' = [] \<and> buffer_handlers k' = [] \<and> buffer_for_key k' = None
        \<and> client k' =
            map_option
              (\<lambda>c. c\<lparr>handlers := filter (\<lambda>x. x \<notin> set (buffer_handlers k)) (handlers c)\<rparr>)
              (client k)
        \<and> (\<forall>c. client k = Some c \<and> set (buffering_handlers c) \<subseteq> set (buffer_handlers k) \<longrightarrow>
              map_option buffering_handlers (client k') = Some [])
        \<and> ((case client k of None \<Rightarrow> True | Some c \<Rightarrow> buffering_handlers c = [])
             \<longrightarrow> buffer k = [])
        \<and> ((case client k of None \<Rightarrow> True | Some c \<Rightarrow> buffering_handlers c = [])
             \<and> buffer_for_key k = None
             \<longrightarrow> get_buffer k = (Returned ([], None), k')))"
proof
  assume "session_state k"
  then have wf: "buffering_wf k" by (rule session_state_wf)
  define k' where "k' = snd (get_buffer k)"
  from get_buffer_wf [OF wf] have
    gb: "get_buffer k = (Returned (buffer k, buffer_for_key k), k')"
    and cl: "buffer k' = []" "buffer_handlers k' = []" "buffer_for_key k' = None"
    and at: "client k' =
            map_option
              (\<lambda>c. c\<lparr>handlers := filter (\<lambda>x. x \<notin> set (buffer_handlers k)) (handlers c)\<rparr>)
              (client k)"
    by (simp_all add: k'_def)
  have all: "\<forall>c. client k = Some c \<and> set (buffering_handlers c) \<subseteq> set (buffer_handlers k) \<longrightarrow>
              map_option buffering_handlers (client k') = Some []"
    by (auto simp: at buffering_handlers_filtered filter_empty_conv)
  from wf have idle: "(case client k of None \<Rightarrow> True | Some c \<Rightarrow> buffering_handlers c = [])
             \<longrightarrow> buffer k = []"
    by (simp add: buffering_wf_def split: option.splits)
  with gb have idle2: "(case client k of None \<Rightarrow> True | Some c \<Rightarrow> buffering_handlers c = [])
             \<and> buffer_for_key k = None
             \<longrightarrow> get_buffer k = (Returned ([], None), k')"
    by simp
  from gb cl at all idle idle2
  show "\<exists>k'. get_buffer k = (Returned (buffer k, buffer_for_key k), k')
        \<and> buffer k' = [] \<and> buffer_handlers k' = [] \<and> buffer_for_key k' = None
        \<and> client k' =
            map_option
              (\<lambda>c. c\<lparr>handlers := filter (\<lambda>x. x \<notin> set (buffer_handlers k)) (handlers c)\<rparr>)
              (client k)
        \<and> (\<forall>c. client k = Some c \<and> set (buffering_handlers c) \<subseteq> set (buffer_handlers k) \<longrightarrow>
              map_option buffering_handlers (client k') = Some [])
        \<and> ((case client k of None \<Rightarrow> True | Some c \<Rightarrow> buffering_handlers c = [])
             \<longrightarrow> buffer k = [])
        \<and> ((case client k of None \<Rightarrow> True | Some c \<Rightarrow> buffering_handlers c = [])
             \<and> buffer_for_key k = None
             \<longrightarrow> get_buffer k = (Returned ([], None), k'))"
    by blast
qed

text \<open>
  Claim C8 as stated fails. On the session on which \<^verbatim>\<open>start_buffering\<close> was
  called twice in a row, six buffering handlers are attached and the last three are
  recorded; \<open>get_buffer\<close> removes those three and leaves the first three attached.
  One of them then buffers a message while no handler and no owner key is recorded, and
  the next \<open>get_buffer\<close> returns that message with no key.
\<close>

theorem get_buffer_leaves_earlier_handlers:
  "map_option buffering_handlers (client twice_started_session) =
     Some [(''shell'', BufferMsg 0 ''shell''), (''iopub'', BufferMsg 1 ''iopub''),
           (''stdin'', BufferMsg 2 ''stdin''), (''shell'', BufferMsg 3 ''shell''),
           (''iopub'', BufferMsg 4 ''iopub''), (''stdin'', BufferMsg 5 ''stdin'')]
   \<and> fst (get_buffer twice_started_session) =
       Returned ([(''shell'', stream_msg)], Some ''key2'')
   \<and> map_option buffering_handlers (client (snd (get_buffer twice_started_session))) =
       Some [(''shell'', BufferMsg 0 ''shell''), (''iopub'', BufferMsg 1 ''iopub''),
             (''stdin'', BufferMsg 2 ''stdin'')]
   \<and> buffer_handlers orphaned_session = []
   \<and> buffer_for_key orphaned_session = None
   \<and> fst (get_buffer orphaned_session) = Returned ([(''shell'', stream_msg)], None)"
  by code_simp

lemma session_k1_reachable: "session_state (session_k1 ''idle'')"
proof -
  have "session_k1 ''idle'' =
      snd (record_activity 0 \<lparr>msg_type = ''status'', msg_execution_state = ''idle''\<rparr>
             culling_config
             (snd (start_watching_activity ''k1''
                (snd (connect_client Resolves (KernelInterface_init 0 ''pyimport/kernel''))))))"
    by code_simp
  then show ?thesis
    by (simp only: session_state.activity [OF session_state.watched
          [OF session_state.connected [OF session_state.created]]])
qed

lemma buffering_session_reachable: "session_state buffering_session"
proof -
  from session_k1_reachable
  have s2: "session_state (snd (start_buffering ''key1'' (session_k1 ''idle'')))"
    by (rule session_state.started_buffering)
  have "client (snd (start_buffering ''key1'' (session_k1 ''idle''))) \<noteq> None" by code_simp
  then obtain c where c: "client (snd (start_buffering ''key1'' (session_k1 ''idle''))) = Some c"
    by auto
  have "map_option (\<lambda>c. (''shell'', BufferMsg 0 ''shell'') \<in> set (handlers c))
          (client (snd (start_buffering ''key1'' (session_k1 ''idle'')))) = Some True"
    by code_simp
  with c have "(''shell'', BufferMsg 0 ''shell'') \<in> set (handlers c)" by simp
  with s2 c show ?thesis
    unfolding buffering_session_def by (rule session_state.handler_called)
qed

lemma twice_started_session_reachable: "session_state twice_started_session"
  unfolding twice_started_session_def
  using buffering_session_reachable by (rule session_state.started_buffering)

lemma orphaned_session_reachable: "session_state orphaned_session"
proof -
  from twice_started_session_reachable
  have s: "session_state (snd (get_buffer twice_started_session))"
    by (rule session_state.took_buffer)
  have "client (snd (get_buffer twice_started_session)) \<noteq> None" by code_simp
  then obtain c where c: "client (snd (get_buffer twice_started_session)) = Some c" by auto
  have "map_option (\<lambda>c. (''shell'', BufferMsg 0 ''shell'') \<in> set (handlers c))
          (client (snd (get_buffer twice_started_session))) = Some True"
    by code_simp
  with c have "(''shell'', BufferMsg 0 ''shell'') \<in> set (handlers c)" by simp
  with s c show ?thesis
    unfolding orphaned_session_def by (rule session_state.handler_called)
qed

theorem get_buffer_returns_and_detaches_recorded_witness:
  "session_state buffering_session
   \<and> get_buffer buffering_session =
       (Returned ([(''shell'', stream_msg)], Some ''key1''), snd (get_buffer buffering_session))
   \<and> buffer (snd (get_buffer buffering_session)) = []
   \<and> buffer_handlers (snd (get_buffer buffering_session)) = []
   \<and> buffer_for_key (snd (get_buffer buffering_session)) = None
   \<and> map_option handlers (client (snd (get_buffer buffering_session))) =
       Some [(''iopub'', RecordActivity ''k1'')]
   \<and> session_state (session_k1 ''idle'')
   \<and> fst (get_buffer (session_k1 ''idle'')) = Returned ([], None)"
proof -
  have b: "buffer buffering_session = [(''shell'', stream_msg)]"
    "buffer_for_key buffering_session = Some ''key1''"
    by code_simp+
  have h: "map_option handlers (client (snd (get_buffer buffering_session))) =
       Some [(''iopub'', RecordActivity ''k1'')]"
    by code_simp
  from get_buffer_returns_and_detaches_recorded [of buffering_session]
    buffering_session_reachable b
  have 1: "get_buffer buffering_session =
       (Returned ([(''shell'', stream_msg)], Some ''key1''), snd (get_buffer buffering_session))
   \<and> buffer (snd (get_buffer buffering_session)) = []
   \<and> buffer_handlers (snd (get_buffer buffering_session)) = []
   \<and> buffer_for_key (snd (get_buffer buffering_session)) = None"
    by auto
  have i: "(case client (session_k1 ''idle'') of None \<Rightarrow> True
            | Some c \<Rightarrow> buffering_handlers c = [])"
    "buffer_for_key (session_k1 ''idle'') = None"
    by code_simp+
  from get_buffer_returns_and_detaches_recorded [of "session_k1 ''idle''"]
    session_k1_reachable i
  have 2: "fst (get_buffer (session_k1 ''idle'')) = Returned ([], None)"
    by auto
  from buffering_session_reachable session_k1_reachable 1 h 2 show ?thesis by simp
qed

lemma manager_start_buffering_wf:
  assumes on: "buffer_offline_messages m" and reg: "map_of (kernels m) kernel_id = Some k"
    and c: "client k = Some c" and wf: "buffering_wf k"
  shows "\<exists>k' c'. manager_start_buffering kernel_id session_key channels m =
                 (Returned [], m\<lparr>kernels := AList.update kernel_id k' (kernels m)\<rparr>)
         \<and> buffer k' = [] \<and> buffer_for_key k' = Some session_key
         \<and> buffer_handlers k' =
             [(''shell'', BufferMsg (handler_seq k) ''shell''),
              (''iopub'', BufferMsg (handler_seq k + 1) ''iopub''),
              (''stdin'', BufferMsg (handler_seq k + 2) ''stdin'')]
         \<and> client k' = Some c'
         \<and> handlers c' =
             filter (\<lambda>x. x \<notin> set (buffer_handlers k)) (handlers c) @
             [(''shell'', BufferMsg (handler_seq k) ''shell''),
              (''iopub'', BufferMsg (handler_seq k + 1) ''iopub''),
              (''stdin'', BufferMsg (handler_seq k + 2) ''stdin'')]
         \<and> set (buffer_handlers k) \<inter> set (handlers c') = {}
         \<and> (set (buffering_handlers c) \<subseteq> set (buffer_handlers k) \<longrightarrow>
               buffering_handlers c' = buffer_handlers k')"
proof -
  define k1 where "k1 = snd (stop_buffering k)"
  define c1 where
    "c1 = c\<lparr>handlers := filter (\<lambda>x. x \<notin> set (buffer_handlers k)) (handlers c)\<rparr>"
  define new where "new =
             [(''shell'', BufferMsg (handler_seq k) ''shell''),
              (''iopub'', BufferMsg (handler_seq k + 1) ''iopub''),
              (''stdin'', BufferMsg (handler_seq k + 2) ''stdin'')]"
  from stop_buffering_wf [OF wf] c have
    sb: "stop_buffering k = (Returned (), k1)"
    and cl: "buffer k1 = []" "buffer_handlers k1 = []" "handler_seq k1 = handler_seq k"
    and c1: "client k1 = Some c1"
    by (cases "stop_buffering k"; simp add: k1_def c1_def)+
  from start_buffering_connected [OF c1, of session_key] cl obtain k' where
    st: "start_buffering session_key k1 = (Returned (), k')"
    and b: "buffer k' = []" "buffer_for_key k' = Some session_key"
    and c': "client k' = Some (c1\<lparr>handlers := handlers c1 @ new\<rparr>)"
    and h: "buffer_handlers k' = new"
    by (auto simp: new_def)
  define c2 where "c2 = c1\<lparr>handlers := handlers c1 @ new\<rparr>"
  have hs: "handlers c2 = filter (\<lambda>x. x \<notin> set (buffer_handlers k)) (handlers c) @ new"
    by (simp add: c2_def c1_def)
  from wf have below: "\<forall>x \<in> set (buffer_handlers k). handler_below (handler_seq k) x"
    by (simp add: buffering_wf_def)
  have fresh: "\<forall>x \<in> set new. \<not> handler_below (handler_seq k) x"
    by (simp add: new_def)
  from below fresh have disj: "set (buffer_handlers k) \<inter> set (handlers c2) = {}"
    by (auto simp: hs)
  have only: "set (buffering_handlers c) \<subseteq> set (buffer_handlers k) \<longrightarrow>
               buffering_handlers c2 = new"
  proof
    assume "set (buffering_handlers c) \<subseteq> set (buffer_handlers k)"
    then have "filter (\<lambda>x. x \<notin> set (buffer_handlers k)) (buffering_handlers c) = []"
      by (auto simp: filter_empty_conv)
    moreover have "buffering_handlers c2 =
        filter (\<lambda>x. x \<notin> set (buffer_handlers k)) (buffering_handlers c) @ new"
      by (simp add: buffering_handlers_def c2_def c1_def new_def del: filter_filter)
         (auto intro: filter_cong)
    ultimately show "buffering_handlers c2 = new" by simp
  qed
  from on reg sb st have res:
    "manager_start_buffering kernel_id session_key channels m =
       (Returned [], m\<lparr>kernels := AList.update kernel_id k' (kernels m)\<rparr>)"
    by (simp add: manager_start_buffering_def check_kernel_id_def contains_def)
  from res b h c' hs disj only show ?thesis
    unfolding new_def [symmetric] c2_def [symmetric] by blast
qed

text \<open>
  Claim C9, as amended. The session's own \<open>start_buffering\<close> (on a session with a
  client) records the key, attaches one new handler to each of \<^verbatim>\<open>shell\<close>,
  \<^verbatim>\<open>iopub\<close>, \<^verbatim>\<open>stdin\<close> after the handlers already attached and stores it
  under its channel, and leaves the buffer as it was: it clears nothing. The registry's
  \<open>manager_start_buffering\<close> (buffering enabled, the session registered, with a
  client, in any of its states) stops the buffering first: afterwards the buffer is empty,
  the key is the new one, the three new handlers are the recorded ones, and the client
  holds what it held before less the handlers recorded before, followed by the three new
  ones. None of the handlers recorded before is attached any more; when every buffering
  handler attached before was recorded, the three new ones are the only buffering
  handlers left. A buffering handler, when called, appends the pair of its channel and
  the message to the buffer.
\<close>

theorem start_buffering_registers_registry_detaches_recorded:
  "(client k = Some c \<longrightarrow>
      (\<exists>k'. start_buffering session_key k = (Returned (), k')
         \<and> buffer k' = buffer k
         \<and> buffer_for_key k' = Some session_key
         \<and> client k' =
             Some (c\<lparr>handlers := handlers c @
                        [(''shell'', BufferMsg (handler_seq k) ''shell''),
                         (''iopub'', BufferMsg (handler_seq k + 1) ''iopub''),
                         (''stdin'', BufferMsg (handler_seq k + 2) ''stdin'')]\<rparr>)
         \<and> map_of (buffer_handlers k') =
             (map_of (buffer_handlers k))
               (''shell'' \<mapsto> BufferMsg (handler_seq k) ''shell'',
                ''iopub'' \<mapsto> BufferMsg (handler_seq k + 1) ''iopub'',
                ''stdin'' \<mapsto> BufferMsg (handler_seq k + 2) ''stdin'')))
   \<and> (buffer_offline_messages m \<and> map_of (kernels m) kernel_id = Some k
        \<and> client k = Some c \<and> session_state k \<longrightarrow>
      (\<exists>k' c'. manager_start_buffering kernel_id session_key channels m =
                 (Returned [], m\<lparr>kernels := AList.update kernel_id k' (kernels m)\<rparr>)
         \<and> buffer k' = [] \<and> buffer_for_key k' = Some session_key
         \<and> buffer_handlers k' =
             [(''shell'', BufferMsg (handler_seq k) ''shell''),
              (''iopub'', BufferMsg (handler_seq k + 1) ''iopub''),
              (''stdin'', BufferMsg (handler_seq k + 2) ''stdin'')]
         \<and> client k' = Some c'
         \<and> handlers c' =
             filter (\<lambda>x. x \<notin> set (buffer_handlers k)) (handlers c) @
             [(''shell'', BufferMsg (handler_seq k) ''shell''),
              (''iopub'', BufferMsg (handler_seq k + 1) ''iopub''),
              (''stdin'', BufferMsg (handler_seq k + 2) ''stdin'')]
         \<and> set (buffer_handlers k) \<inter> set (handlers c') = {}
         \<and> (set (buffering_handlers c) \<subseteq> set (buffer_handlers k) \<longrightarrow>
               buffering_handlers c' = buffer_handlers k')))
   \<and> run_handler (BufferMsg i channel) msg k = k\<lparr>buffer := buffer k @ [(channel, msg)]\<rparr>"
proof (intro conjI impI)
  assume "client k = Some c"
  from start_buffering_connected [OF this, of session_key]
  show "\<exists>k'. start_buffering session_key k = (Returned (), k')
         \<and> buffer k' = buffer k
         \<and> buffer_for_key k' = Some session_key
         \<and> client k' =
             Some (c\<lparr>handlers := handlers c @
                        [(''shell'', BufferMsg (handler_seq k) ''shell''),
                         (''iopub'', BufferMsg (handler_seq k + 1) ''iopub''),
                         (''stdin'', BufferMsg (handler_seq k + 2) ''stdin'')]\<rparr>)
         \<and> map_of (buffer_handlers k') =
             (map_of (buffer_handlers k))
               (''shell'' \<mapsto> BufferMsg (handler_seq k) ''shell'',
                ''iopub'' \<mapsto> BufferMsg (handler_seq k + 1) ''iopub'',
                ''stdin'' \<mapsto> BufferMsg (handler_seq k + 2) ''stdin'')"
    by (auto simp: update_conv')
next
  assume a: "buffer_offline_messages m \<and> map_of (kernels m) kernel_id = Some k
        \<and> client k = Some c \<and> session_state k"
  then have "buffering_wf k" by (simp add: session_state_wf)
  with a show "\<exists>k' c'. manager_start_buffering kernel_id session_key channels m =
                 (Returned [], m\<lparr>kernels := AList.update kernel_id k' (kernels m)\<rparr>)
         \<and> buffer k' = [] \<and> buffer_for_key k' = Some session_key
         \<and> buffer_handlers k' =
             [(''shell'', BufferMsg (handler_seq k) ''shell''),
              (''iopub'', BufferMsg (handler_seq k + 1) ''iopub''),
              (''stdin'', BufferMsg (handler_seq k + 2) ''stdin'')]
         \<and> client k' = Some c'
         \<and> handlers c' =
             filter (\<lambda>x. x \<notin> set (buffer_handlers k)) (handlers c) @
             [(''shell'', BufferMsg (handler_seq k) ''shell''),
              (''iopub'', BufferMsg (handler_seq k + 1) ''iopub''),
              (''stdin'', BufferMsg (handler_seq k + 2) ''stdin'')]
         \<and> set (buffer_handlers k) \<inter> set (handlers c') = {}
         \<and> (set (buffering_handlers c) \<subseteq> set (buffer_handlers k) \<longrightarrow>
               buffering_handlers c' = buffer_handlers k')"
    by (intro manager_start_buffering_wf) simp_all
next
  show "run_handler (BufferMsg i channel) msg k = k\<lparr>buffer := buffer k @ [(channel, msg)]\<rparr>"
    by (simp add: buffer_msg_def)
qed

theorem start_buffering_registers_registry_detaches_recorded_witness:
  "buffer_offline_messages buffering_registry
   \<and> map_of (kernels buffering_registry) ''k1'' = Some buffering_session
   \<and> session_state buffering_session
   \<and> buffer buffering_session = [(''shell'', stream_msg)]
   \<and> (\<exists>k' c'. manager_start_buffering ''k1'' ''key2'' [] buffering_registry =
                 (Returned [], buffering_registry\<lparr>kernels :=
                    AList.update ''k1'' k' (kernels buffering_registry)\<rparr>)
         \<and> buffer k' = [] \<and> buffer_for_key k' = Some ''key2''
         \<and> client k' = Some c'
         \<and> handlers c' =
             [(''iopub'', RecordActivity ''k1''),
              (''shell'', BufferMsg 3 ''shell''), (''iopub'', BufferMsg 4 ''iopub''),
              (''stdin'', BufferMsg 5 ''stdin'')])
   \<and> map_of (kernels twice_started_registry) ''k1'' = Some twice_started_session
   \<and> session_state twice_started_session
   \<and> (\<exists>k' c'. manager_start_buffering ''k1'' ''key3'' [] twice_started_registry =
                 (Returned [], twice_started_registry\<lparr>kernels :=
                    AList.update ''k1'' k' (kernels twice_started_registry)\<rparr>)
         \<and> buffer k' = [] \<and> buffer_for_key k' = Some ''key3''
         \<and> client k' = Some c'
         \<and> handlers c' =
             [(''iopub'', RecordActivity ''k1''),
              (''shell'', BufferMsg 0 ''shell''), (''iopub'', BufferMsg 1 ''iopub''),
              (''stdin'', BufferMsg 2 ''stdin''),
              (''shell'', BufferMsg 6 ''shell''), (''iopub'', BufferMsg 7 ''iopub''),
              (''stdin'', BufferMsg 8 ''stdin'')])"
proof -
  have on: "buffer_offline_messages buffering_registry"
    "buffer_offline_messages twice_started_registry" by code_simp+
  have reg: "map_of (kernels buffering_registry) ''k1'' = Some buffering_session"
    "map_of (kernels twice_started_registry) ''k1'' = Some twice_started_session"
    by code_simp+
  have b: "buffer buffering_session = [(''shell'', stream_msg)]" by code_simp
  have sq: "handler_seq buffering_session = 3" "handler_seq twice_started_session = 6"
    by code_simp+
  have "client buffering_session \<noteq> None" by code_simp
  then obtain c where c: "client buffering_session = Some c" by auto
  have "map_option (\<lambda>c. filter (\<lambda>x. x \<notin> set (buffer_handlers buffering_session)) (handlers c))
          (client buffering_session) = Some [(''iopub'', RecordActivity ''k1'')]"
    by code_simp
  with c have f: "filter (\<lambda>x. x \<notin> set (buffer_handlers buffering_session)) (handlers c) =
                    [(''iopub'', RecordActivity ''k1'')]"
    by simp
  have "client twice_started_session \<noteq> None" by code_simp
  then obtain d where d: "client twice_started_session = Some d" by auto
  have "map_option (\<lambda>c. filter (\<lambda>x. x \<notin> set (buffer_handlers twice_started_session)) (handlers c))
          (client twice_started_session) =
        Some [(''iopub'', RecordActivity ''k1''),
              (''shell'', BufferMsg 0 ''shell''), (''iopub'', BufferMsg 1 ''iopub''),
              (''stdin'', BufferMsg 2 ''stdin'')]"
    by code_simp
  with d have g: "filter (\<lambda>x. x \<notin> set (buffer_handlers twice_started_session)) (handlers d) =
        [(''iopub'', RecordActivity ''k1''),
              (''shell'', BufferMsg 0 ''shell''), (''iopub'', BufferMsg 1 ''iopub''),
              (''stdin'', BufferMsg 2 ''stdin'')]"
    by simp
  from start_buffering_registers_registry_detaches_recorded
         [of buffering_session c "''key2''" buffering_registry "''k1''" "[]"]
       on reg c buffering_session_reachable
  obtain k' c' where
    "manager_start_buffering ''k1'' ''key2'' [] buffering_registry =
       (Returned [], buffering_registry\<lparr>kernels :=
          AList.update ''k1'' k' (kernels buffering_registry)\<rparr>)"
    "buffer k' = []" "buffer_for_key k' = Some ''key2''" "client k' = Some c'"
    "handlers c' =
       filter (\<lambda>x. x \<notin> set (buffer_handlers buffering_session)) (handlers c) @
       [(''shell'', BufferMsg (handler_seq buffering_session) ''shell''),
        (''iopub'', BufferMsg (handler_seq buffering_session + 1) ''iopub''),
        (''stdin'', BufferMsg (handler_seq buffering_session + 2) ''stdin'')]"
    by blast
  with f sq have 1: "\<exists>k' c'. manager_start_buffering ''k1'' ''key2'' [] buffering_registry =
                 (Returned [], buffering_registry\<lparr>kernels :=
                    AList.update ''k1'' k' (kernels buffering_registry)\<rparr>)
         \<and> buffer k' = [] \<and> buffer_for_key k' = Some ''key2''
         \<and> client k' = Some c'
         \<and> handlers c' =
             [(''iopub'', RecordActivity ''k1''),
              (''shell'', BufferMsg 3 ''shell''), (''iopub'', BufferMsg 4 ''iopub''),
              (''stdin'', BufferMsg 5 ''stdin'')]"
    by auto
  from start_buffering_registers_registry_detaches_recorded
         [of twice_started_session d "''key3''" twice_started_registry "''k1''" "[]"]
       on reg d twice_started_session_reachable
  obtain k'' d' where
    "manager_start_buffering ''k1'' ''key3'' [] twice_started_registry =
       (Returned [], twice_started_registry\<lparr>kernels :=
          AList.update ''k1'' k'' (kernels twice_started_registry)\<rparr>)"
    "buffer k'' = []" "buffer_for_key k'' = Some ''key3''" "client k'' = Some d'"
    "handlers d' =
       filter (\<lambda>x. x \<notin> set (buffer_handlers twice_started_session)) (handlers d) @
       [(''shell'', BufferMsg (handler_seq twice_started_session) ''shell''),
        (''iopub'', BufferMsg (handler_seq twice_started_session + 1) ''iopub''),
        (''stdin'', BufferMsg (handler_seq twice_started_session + 2) ''stdin'')]"
    by blast
  with g sq have 2: "\<exists>k' c'. manager_start_buffering ''k1'' ''key3'' [] twice_started_registry =
                 (Returned [], twice_started_registry\<lparr>kernels :=
                    AList.update ''k1'' k' (kernels twice_started_registry)\<rparr>)
         \<and> buffer k' = [] \<and> buffer_for_key k' = Some ''key3''
         \<and> client k' = Some c'
         \<and> handlers c' =
             [(''iopub'', RecordActivity ''k1''),
              (''shell'', BufferMsg 0 ''shell''), (''iopub'', BufferMsg 1 ''iopub''),
              (''stdin'', BufferMsg 2 ''stdin''),
              (''shell'', BufferMsg 6 ''shell''), (''iopub'', BufferMsg 7 ''iopub''),
              (''stdin'', BufferMsg 8 ''stdin'')]"
    by auto
  from on reg b buffering_session_reachable twice_started_session_reachable 1 2
  show ?thesis by blast
qed

section \<open>A restart that does not complete\<close>

lemma late_start_completion_binds:
  "contains (late_start_completion built kernel_id kt m) kernel_id
   \<and> gauge (late_start_completion built kernel_id kt m) label = gauge m label"
  by (simp add: late_start_completion_def start_kernel_internal_def connect_client_def
      KernelInterface_init_def start_watching_activity_def gauge_def)

text \<open>
  Claim C5, at concrete inputs: session \<^verbatim>\<open>k1\<close> is live and is restarted. Whether the
  replacement is not ready by the deadline or cannot be launched at all,
  \<^verbatim>\<open>restart_kernel\<close> raises, and the registry is left holding, under
  \<^verbatim>\<open>k1\<close>, the old session whose shutdown has run to its end (client closed,
  process handle cleaned up); \<open>list_kernels\<close> returns a model for it.
\<close>

theorem failed_restart_leaves_shut_down_session_listed:
  "(case map_of (kernels (one_session ''idle'')) ''k1'' of
      None \<Rightarrow> False | Some k \<Rightarrow> \<not> shut_down k)
   \<and> fst (restart_kernel 5000000 Resolves None Pending ''k1'' (one_session ''idle''))
       = Raised (TimeoutError ''Timeout waiting for restart'')
   \<and> (case map_of (kernels (snd (restart_kernel 5000000 Resolves None Pending ''k1''
                                   (one_session ''idle'')))) ''k1'' of
        None \<Rightarrow> False | Some k \<Rightarrow> shut_down k)
   \<and> list_kernels (snd (restart_kernel 5000000 Resolves None Pending ''k1''
                          (one_session ''idle''))) =
       Inr [\<lparr>model_id = ''k1'', model_name = ''pyimport/kernel'',
             model_last_activity = Some 0, model_execution_state = ''idle'',
             model_connections = 0\<rparr>]
   \<and> fst (restart_kernel 5000000 Resolves (Some (CollaboratorError ''launch failed'')) Resolves
            ''k1'' (one_session ''idle''))
       = Raised (CollaboratorError ''launch failed'')
   \<and> (case map_of (kernels (snd (restart_kernel 5000000 Resolves
                                   (Some (CollaboratorError ''launch failed'')) Resolves ''k1''
                                   (one_session ''idle'')))) ''k1'' of
        None \<Rightarrow> False | Some k \<Rightarrow> shut_down k)
   \<and> list_kernels (snd (restart_kernel 5000000 Resolves
                          (Some (CollaboratorError ''launch failed'')) Resolves ''k1''
                          (one_session ''idle''))) =
       Inr [\<lparr>model_id = ''k1'', model_name = ''pyimport/kernel'',
             model_last_activity = Some 0, model_execution_state = ''idle'',
             model_connections = 0\<rparr>]"
  by code_simp

end
